theory Spec2Isabelle
  imports Main "HOL-Library.Word"
begin

section \<open>The Events API client (package api)\<close>

text \<open>
  A shallow embedding of the client of the audit-log API: the request builder
  \<open>newAPIRequest\<close> and the three operations \<open>Introspect\<close>, \<open>SignInAttempts\<close> and
  \<open>ItemUsages\<close>.

  Go returns a pair (value, error) of which one component is nil; it is a sum here, with
  \<open>Inl\<close> the error. A Go call can also panic, which is neither: \<open>Panics\<close>.
\<close>

subsection \<open>Errors and panics\<close>

text \<open>
  \<open>ErrorString m\<close> is an error made by \<open>errors.New\<close> or by \<open>fmt.Errorf\<close> without
  \<open>%w\<close>; \<open>Wrapped m e\<close> is \<open>fmt.Errorf(m ++ "%w", e)\<close>, whose \<open>Unwrap\<close> is \<open>e\<close>.
\<close>

datatype error = ErrorString string | Wrapped string error

fun Unwrap :: "error \<Rightarrow> error option" where
  "Unwrap (ErrorString m) = None"
| "Unwrap (Wrapped m e) = Some e"

datatype 'a go = Returns 'a | Panics string

subsection \<open>Requests, responses and response bodies\<close>

text \<open>
  \<open>http.Header\<close> is a map from a key to the list of its values; \<open>Add\<close> appends. The two
  keys the client uses are already in canonical form.
\<close>

type_synonym Header = "string \<Rightarrow> string list"

definition Header_Add :: "Header \<Rightarrow> string \<Rightarrow> string \<Rightarrow> Header" where
  "Header_Add h key v = h(key := h key @ [v])"

text \<open>
  A request: its method, the URL string it was built from, its headers and its body
  (\<open>None\<close> for the nil reader of a GET, \<open>Some s\<close> for \<open>strings.NewReader(s)\<close>).
\<close>

record request =
  Method :: string
  URL :: string
  Header :: Header
  ReqBody :: "string option"

text \<open>
  The body of a response that the transport returned: the bytes the server sent and whether
  \<open>Close\<close> has been called. Reading a closed body fails, as the bodies of net/http's
  transport do (``http: read on closed response body'').
\<close>

record body =
  content :: string
  closed :: bool

definition Close :: "body \<Rightarrow> body" where
  "Close b = b\<lparr>closed := True\<rparr>"

definition ReadAll :: "body \<Rightarrow> error + string" where
  "ReadAll b =
     (if closed b then Inl (ErrorString ''http: read on closed response body'')
      else Inr (content b))"

record response =
  StatusCode :: int
  Status :: string
  Body :: body

subsection \<open>http.NewRequestWithContext\<close>

text \<open>
  \<open>validMethod\<close>: a method is a non-empty string of HTTP token characters.
\<close>

definition byte :: "char \<Rightarrow> nat" where
  "byte c = of_char c"

definition isLower :: "char \<Rightarrow> bool" where
  "isLower c = (97 \<le> byte c \<and> byte c \<le> 122)"

definition isUpper :: "char \<Rightarrow> bool" where
  "isUpper c = (65 \<le> byte c \<and> byte c \<le> 90)"

definition isDigit :: "char \<Rightarrow> bool" where
  "isDigit c = (48 \<le> byte c \<and> byte c \<le> 57)"

definition isTokenRune :: "char \<Rightarrow> bool" where
  "isTokenRune c =
     (isLower c \<or> isUpper c \<or> isDigit c \<or> c \<in> set ''!#$%&*+-.^_`|~'' \<or> c = CHR 0x27)"

definition validMethod :: "string \<Rightarrow> bool" where
  "validMethod m = (m \<noteq> [] \<and> list_all isTokenRune m)"

text \<open>
  \<open>url.Parse\<close> cuts the fragment off at the first \<open>#\<close> and then rejects what is left when
  it holds an ASCII control byte; this first check is modelled as it is. The rest of the
  parser is the parameter \<open>parse_rest\<close>, which says whether it accepts the string.
\<close>

definition stringContainsCTLByte :: "string \<Rightarrow> bool" where
  "stringContainsCTLByte s = list_ex (\<lambda>c. byte c < 32 \<or> byte c = 127) s"

definition url_Parse :: "(string \<Rightarrow> bool) \<Rightarrow> string \<Rightarrow> error + string" where
  "url_Parse parse_rest rawURL =
     (if stringContainsCTLByte (takeWhile (\<lambda>c. c \<noteq> CHR ''#'') rawURL)
      then Inl (ErrorString ''net/url: invalid control character in URL'')
      else if parse_rest rawURL then Inr rawURL
      else Inl (ErrorString ''parse error''))"

text \<open>
  The context is not nil in any call of this package, so that check is left out. The new
  request has an empty header.
\<close>

definition NewRequestWithContext ::
  "(string \<Rightarrow> bool) \<Rightarrow> string \<Rightarrow> string \<Rightarrow> string option \<Rightarrow> error + request" where
  "NewRequestWithContext parse_rest method url rbody =
     (let method = (if method = [] then ''GET'' else method) in
      if \<not> validMethod method then Inl (ErrorString ''net/http: invalid method'')
      else case url_Parse parse_rest url of
             Inl e \<Rightarrow> Inl e
           | Inr u \<Rightarrow> Inr \<lparr>Method = method, URL = u, Header = (\<lambda>k. []), ReqBody = rbody\<rparr>)"

subsection \<open>JSON values and encoding/json's decoding into Go values\<close>

text \<open>
  A JSON value as the scanner of encoding/json delivers it: a string is its unquoted bytes,
  a number is its literal, an object is the list of its members in the order of the text
  (a key may occur more than once).
\<close>

datatype json =
    JNull
  | JBool bool
  | JNumber string
  | JString string
  | JArray "json list"
  | JObject "(string \<times> json) list"

text \<open>
  Storing a JSON value into a Go value either goes through, leaving the value as filled
  and the first type error that was saved on the way (\<open>d.saveError\<close>), or stops at once
  with an error (an \<open>Unmarshaler\<close> that fails), leaving the value as far as it was filled.
\<close>

datatype 'a stored = Stored 'a "error option" | Stopped 'a error

fun value_of :: "'a stored \<Rightarrow> 'a" where
  "value_of (Stored v s) = v"
| "value_of (Stopped v e) = v"

fun error_of :: "'a stored \<Rightarrow> error option" where
  "error_of (Stored v s) = s"
| "error_of (Stopped v e) = Some e"

definition saveError :: "error option \<Rightarrow> error option \<Rightarrow> error option" where
  "saveError saved new = (case saved of None \<Rightarrow> new | Some e \<Rightarrow> Some e)"

definition UnmarshalTypeError :: "string \<Rightarrow> error" where
  "UnmarshalTypeError goType = ErrorString (''json: cannot unmarshal into Go value of type '' @ goType)"

type_synonym 'a store = "json \<Rightarrow> 'a \<Rightarrow> 'a stored"

definition store_string :: "string store" where
  "store_string j v =
     (case j of
        JString s \<Rightarrow> Stored s None
      | JNull \<Rightarrow> Stored v None
      | _ \<Rightarrow> Stored v (Some (UnmarshalTypeError ''string'')))"

definition store_bool :: "bool store" where
  "store_bool j v =
     (case j of
        JBool b \<Rightarrow> Stored b None
      | JNull \<Rightarrow> Stored v None
      | _ \<Rightarrow> Stored v (Some (UnmarshalTypeError ''bool'')))"

text \<open>
  \<open>strconv.ParseUint(lit, 10, 32)\<close>: decimal digits only, and the value below \<open>2 ^ 32\<close>.
\<close>

definition digits_value :: "string \<Rightarrow> nat" where
  "digits_value s = foldl (\<lambda>n c. 10 * n + (byte c - 48)) 0 s"

definition ParseUint32 :: "string \<Rightarrow> 32 word option" where
  "ParseUint32 lit =
     (if lit \<noteq> [] \<and> list_all isDigit lit \<and> digits_value lit < 2 ^ 32
      then Some (of_nat (digits_value lit)) else None)"

definition store_uint32 :: "32 word store" where
  "store_uint32 j v =
     (case j of
        JNumber lit \<Rightarrow>
          (case ParseUint32 lit of
             Some n \<Rightarrow> Stored n None
           | None \<Rightarrow> Stored v (Some (UnmarshalTypeError ''uint32'')))
      | JNull \<Rightarrow> Stored v None
      | _ \<Rightarrow> Stored v (Some (UnmarshalTypeError ''uint32'')))"

text \<open>
  A pointer field: \<open>null\<close> sets it to nil; any other value is stored into what it points
  to, which is allocated (at its zero value) first when the pointer is nil.
\<close>

definition store_ptr :: "'a store \<Rightarrow> 'a \<Rightarrow> 'a option store" where
  "store_ptr st zero j p =
     (case j of
        JNull \<Rightarrow> Stored None None
      | _ \<Rightarrow>
          (case st j (case p of None \<Rightarrow> zero | Some x \<Rightarrow> x) of
             Stored x s \<Rightarrow> Stored (Some x) s
           | Stopped x e \<Rightarrow> Stopped (Some x) e))"

text \<open>
  A slice: \<open>null\<close> sets it to nil (the empty list here); an array stores its elements one
  by one, each into the element already at that index or else into a zero value, and cuts
  the slice to the length of the array.
\<close>

fun array :: "'a store \<Rightarrow> 'a \<Rightarrow> json list \<Rightarrow> 'a list \<Rightarrow> 'a list stored" where
  "array st zero [] xs = Stored [] None"
| "array st zero (j # js) xs =
     (case st j (case xs of [] \<Rightarrow> zero | x # _ \<Rightarrow> x) of
        Stopped x e \<Rightarrow> Stopped (x # tl xs) e
      | Stored x s \<Rightarrow>
          (case array st zero js (tl xs) of
             Stopped xs' e \<Rightarrow> Stopped (x # xs') e
           | Stored xs' s' \<Rightarrow> Stored (x # xs') (saveError s s')))"

definition store_slice :: "'a store \<Rightarrow> 'a \<Rightarrow> string \<Rightarrow> 'a list store" where
  "store_slice st zero goType j xs =
     (case j of
        JNull \<Rightarrow> Stored [] None
      | JArray js \<Rightarrow> array st zero js xs
      | _ \<Rightarrow> Stored xs (Some (UnmarshalTypeError goType)))"

text \<open>
  A struct: a member of the object is stored into the field whose name in the \<open>json\<close> tag
  matches the key; a key that matches no field is skipped. Keys match up to Unicode simple
  case folding; the field names of this package are ASCII, and the runes that fold to an
  ASCII letter are its two cases, U+017F (to \<open>S\<close>) and U+212A (to \<open>K\<close>).
\<close>

definition toUpper :: "char \<Rightarrow> char" where
  "toUpper c = (if isLower c then char_of (byte c - 32) else c)"

fun foldName :: "string \<Rightarrow> string" where
  "foldName (c1 # c2 # c3 # cs) =
     (if c1 = CHR 0xE2 \<and> c2 = CHR 0x84 \<and> c3 = CHR 0xAA then CHR ''K'' # foldName cs
      else if c1 = CHR 0xC5 \<and> c2 = CHR 0xBF then CHR ''S'' # foldName (c3 # cs)
      else toUpper c1 # foldName (c2 # c3 # cs))"
| "foldName [c1, c2] =
     (if c1 = CHR 0xC5 \<and> c2 = CHR 0xBF then ''S'' else [toUpper c1, toUpper c2])"
| "foldName [c1] = [toUpper c1]"
| "foldName [] = []"

definition keyMatches :: "string \<Rightarrow> string \<Rightarrow> bool" where
  "keyMatches name key = (foldName key = foldName name)"

text \<open>
  \<open>flds\<close> lists the fields of the struct: the name of each with the function that stores
  a JSON value into that field of the struct.
\<close>

fun findField :: "(string \<times> 'a store) list \<Rightarrow> string \<Rightarrow> 'a store option" where
  "findField [] key = None"
| "findField ((name, st) # fs) key = (if keyMatches name key then Some st else findField fs key)"

fun object :: "(string \<times> 'a store) list \<Rightarrow> (string \<times> json) list \<Rightarrow> 'a \<Rightarrow> 'a stored" where
  "object flds [] v = Stored v None"
| "object flds ((key, j) # members) v =
     (case findField flds key of
        None \<Rightarrow> object flds members v
      | Some st \<Rightarrow>
          (case st j v of
             Stopped v' e \<Rightarrow> Stopped v' e
           | Stored v' s \<Rightarrow>
               (case object flds members v' of
                  Stopped v'' e \<Rightarrow> Stopped v'' e
                | Stored v'' s' \<Rightarrow> Stored v'' (saveError s s'))))"

definition store_struct :: "(string \<times> 'a store) list \<Rightarrow> string \<Rightarrow> 'a store" where
  "store_struct flds goType j v =
     (case j of
        JObject members \<Rightarrow> object flds members v
      | JNull \<Rightarrow> Stored v None
      | _ \<Rightarrow> Stored v (Some (UnmarshalTypeError goType)))"

text \<open>
  \<open>at_field get upd st\<close> stores into the field read by \<open>get\<close> and written by \<open>upd\<close>.
\<close>

definition at_field :: "('a \<Rightarrow> 'b) \<Rightarrow> ('b \<Rightarrow> 'a \<Rightarrow> 'a) \<Rightarrow> 'b store \<Rightarrow> 'a store" where
  "at_field get upd st j v =
     (case st j (get v) of
        Stored x s \<Rightarrow> Stored (upd x v) s
      | Stopped x e \<Rightarrow> Stopped (upd x v) e)"

subsection \<open>The response models\<close>

text \<open>
  \<open>time.Time\<close> is an instant with the offset of its zone; the zero value is the instant
  zero in UTC. Its method \<open>UnmarshalJSON\<close> is the parameter \<open>um\<close> of the functions below:
  it takes the JSON value and the Time it is called on, and returns the new Time or an
  error, at which decoding stops.
\<close>

datatype Time = Time (instant: int) (zone: int)

definition zero_Time :: Time where
  "zero_Time = Time 0 0"

type_synonym UnmarshalTime = "json \<Rightarrow> Time \<Rightarrow> error + Time"

definition store_Time :: "UnmarshalTime \<Rightarrow> Time store" where
  "store_Time um j v = (case um j v of Inl e \<Rightarrow> Stopped v e | Inr t \<Rightarrow> Stored t None)"

text \<open>
  The structs of the package, each with its zero value, the list of its fields under the
  names of their \<open>json\<close> tags, and the function that stores a JSON value into it. A field
  is named by its struct and its Go name.
\<close>

record SignInAttemptDetails =
  SignInAttemptDetails_Value :: string

definition zero_SignInAttemptDetails :: SignInAttemptDetails where
  "zero_SignInAttemptDetails =
     \<lparr>SignInAttemptDetails_Value = []\<rparr>"

definition fields_SignInAttemptDetails :: "(string \<times> SignInAttemptDetails store) list" where
  "fields_SignInAttemptDetails =
     [(''value'', at_field SignInAttemptDetails_Value (\<lambda>x v. v\<lparr>SignInAttemptDetails_Value := x\<rparr>) store_string)]"

definition store_SignInAttemptDetails :: "SignInAttemptDetails store" where
  "store_SignInAttemptDetails = store_struct (fields_SignInAttemptDetails) ''api.SignInAttemptDetails''"

record SignInAttemptTargetUser =
  SignInAttemptTargetUser_UUID :: string
  SignInAttemptTargetUser_Name :: string
  SignInAttemptTargetUser_Email :: string

definition zero_SignInAttemptTargetUser :: SignInAttemptTargetUser where
  "zero_SignInAttemptTargetUser =
     \<lparr>SignInAttemptTargetUser_UUID = [],
      SignInAttemptTargetUser_Name = [],
      SignInAttemptTargetUser_Email = []\<rparr>"

definition fields_SignInAttemptTargetUser :: "(string \<times> SignInAttemptTargetUser store) list" where
  "fields_SignInAttemptTargetUser =
     [(''uuid'', at_field SignInAttemptTargetUser_UUID (\<lambda>x v. v\<lparr>SignInAttemptTargetUser_UUID := x\<rparr>) store_string),
      (''name'', at_field SignInAttemptTargetUser_Name (\<lambda>x v. v\<lparr>SignInAttemptTargetUser_Name := x\<rparr>) store_string),
      (''email'', at_field SignInAttemptTargetUser_Email (\<lambda>x v. v\<lparr>SignInAttemptTargetUser_Email := x\<rparr>) store_string)]"

definition store_SignInAttemptTargetUser :: "SignInAttemptTargetUser store" where
  "store_SignInAttemptTargetUser = store_struct (fields_SignInAttemptTargetUser) ''api.SignInAttemptTargetUser''"

record SignInAttemptClient =
  SignInAttemptClient_AppName :: string
  SignInAttemptClient_AppVersion :: string
  SignInAttemptClient_PlatformName :: string
  SignInAttemptClient_PlatformVersion :: string
  SignInAttemptClient_OSName :: string
  SignInAttemptClient_OSVersion :: string
  SignInAttemptClient_IPAddress :: string

definition zero_SignInAttemptClient :: SignInAttemptClient where
  "zero_SignInAttemptClient =
     \<lparr>SignInAttemptClient_AppName = [],
      SignInAttemptClient_AppVersion = [],
      SignInAttemptClient_PlatformName = [],
      SignInAttemptClient_PlatformVersion = [],
      SignInAttemptClient_OSName = [],
      SignInAttemptClient_OSVersion = [],
      SignInAttemptClient_IPAddress = []\<rparr>"

definition fields_SignInAttemptClient :: "(string \<times> SignInAttemptClient store) list" where
  "fields_SignInAttemptClient =
     [(''app_name'', at_field SignInAttemptClient_AppName (\<lambda>x v. v\<lparr>SignInAttemptClient_AppName := x\<rparr>) store_string),
      (''app_version'', at_field SignInAttemptClient_AppVersion (\<lambda>x v. v\<lparr>SignInAttemptClient_AppVersion := x\<rparr>) store_string),
      (''platform_name'', at_field SignInAttemptClient_PlatformName (\<lambda>x v. v\<lparr>SignInAttemptClient_PlatformName := x\<rparr>) store_string),
      (''platform_version'', at_field SignInAttemptClient_PlatformVersion (\<lambda>x v. v\<lparr>SignInAttemptClient_PlatformVersion := x\<rparr>) store_string),
      (''os_name'', at_field SignInAttemptClient_OSName (\<lambda>x v. v\<lparr>SignInAttemptClient_OSName := x\<rparr>) store_string),
      (''os_version'', at_field SignInAttemptClient_OSVersion (\<lambda>x v. v\<lparr>SignInAttemptClient_OSVersion := x\<rparr>) store_string),
      (''ip_address'', at_field SignInAttemptClient_IPAddress (\<lambda>x v. v\<lparr>SignInAttemptClient_IPAddress := x\<rparr>) store_string)]"

definition store_SignInAttemptClient :: "SignInAttemptClient store" where
  "store_SignInAttemptClient = store_struct (fields_SignInAttemptClient) ''api.SignInAttemptClient''"

record SignInAttempt =
  SignInAttempt_UUID :: string
  SignInAttempt_SessionUUID :: string
  SignInAttempt_Timestamp :: Time
  SignInAttempt_Country :: string
  SignInAttempt_Category :: string
  SignInAttempt_Type :: string
  SignInAttempt_Details :: "SignInAttemptDetails option"
  SignInAttempt_SignInAttemptTargetUser :: SignInAttemptTargetUser
  SignInAttempt_SignInAttemptClient :: SignInAttemptClient

definition zero_SignInAttempt :: SignInAttempt where
  "zero_SignInAttempt =
     \<lparr>SignInAttempt_UUID = [],
      SignInAttempt_SessionUUID = [],
      SignInAttempt_Timestamp = zero_Time,
      SignInAttempt_Country = [],
      SignInAttempt_Category = [],
      SignInAttempt_Type = [],
      SignInAttempt_Details = None,
      SignInAttempt_SignInAttemptTargetUser = zero_SignInAttemptTargetUser,
      SignInAttempt_SignInAttemptClient = zero_SignInAttemptClient\<rparr>"

definition fields_SignInAttempt :: "UnmarshalTime \<Rightarrow> (string \<times> SignInAttempt store) list" where
  "fields_SignInAttempt um =
     [(''uuid'', at_field SignInAttempt_UUID (\<lambda>x v. v\<lparr>SignInAttempt_UUID := x\<rparr>) store_string),
      (''session_uuid'', at_field SignInAttempt_SessionUUID (\<lambda>x v. v\<lparr>SignInAttempt_SessionUUID := x\<rparr>) store_string),
      (''timestamp'', at_field SignInAttempt_Timestamp (\<lambda>x v. v\<lparr>SignInAttempt_Timestamp := x\<rparr>) (store_Time um)),
      (''country'', at_field SignInAttempt_Country (\<lambda>x v. v\<lparr>SignInAttempt_Country := x\<rparr>) store_string),
      (''category'', at_field SignInAttempt_Category (\<lambda>x v. v\<lparr>SignInAttempt_Category := x\<rparr>) store_string),
      (''type'', at_field SignInAttempt_Type (\<lambda>x v. v\<lparr>SignInAttempt_Type := x\<rparr>) store_string),
      (''details'', at_field SignInAttempt_Details (\<lambda>x v. v\<lparr>SignInAttempt_Details := x\<rparr>) (store_ptr store_SignInAttemptDetails zero_SignInAttemptDetails)),
      (''target_user'', at_field SignInAttempt_SignInAttemptTargetUser (\<lambda>x v. v\<lparr>SignInAttempt_SignInAttemptTargetUser := x\<rparr>) store_SignInAttemptTargetUser),
      (''client'', at_field SignInAttempt_SignInAttemptClient (\<lambda>x v. v\<lparr>SignInAttempt_SignInAttemptClient := x\<rparr>) store_SignInAttemptClient)]"

definition store_SignInAttempt :: "UnmarshalTime \<Rightarrow> SignInAttempt store" where
  "store_SignInAttempt um = store_struct (fields_SignInAttempt um) ''api.SignInAttempt''"

record SignInAttemptResponse =
  SignInAttemptResponse_Cursor :: string
  SignInAttemptResponse_HasMore :: bool
  SignInAttemptResponse_Items :: "SignInAttempt list"

definition zero_SignInAttemptResponse :: SignInAttemptResponse where
  "zero_SignInAttemptResponse =
     \<lparr>SignInAttemptResponse_Cursor = [],
      SignInAttemptResponse_HasMore = False,
      SignInAttemptResponse_Items = []\<rparr>"

definition fields_SignInAttemptResponse :: "UnmarshalTime \<Rightarrow> (string \<times> SignInAttemptResponse store) list" where
  "fields_SignInAttemptResponse um =
     [(''cursor'', at_field SignInAttemptResponse_Cursor (\<lambda>x v. v\<lparr>SignInAttemptResponse_Cursor := x\<rparr>) store_string),
      (''has_more'', at_field SignInAttemptResponse_HasMore (\<lambda>x v. v\<lparr>SignInAttemptResponse_HasMore := x\<rparr>) store_bool),
      (''items'', at_field SignInAttemptResponse_Items (\<lambda>x v. v\<lparr>SignInAttemptResponse_Items := x\<rparr>) (store_slice (store_SignInAttempt um) zero_SignInAttempt ''[]api.SignInAttempt''))]"

definition store_SignInAttemptResponse :: "UnmarshalTime \<Rightarrow> SignInAttemptResponse store" where
  "store_SignInAttemptResponse um = store_struct (fields_SignInAttemptResponse um) ''api.SignInAttemptResponse''"

record ItemUsageUser =
  ItemUsageUser_UUID :: string
  ItemUsageUser_Name :: string
  ItemUsageUser_Email :: string

definition zero_ItemUsageUser :: ItemUsageUser where
  "zero_ItemUsageUser =
     \<lparr>ItemUsageUser_UUID = [],
      ItemUsageUser_Name = [],
      ItemUsageUser_Email = []\<rparr>"

definition fields_ItemUsageUser :: "(string \<times> ItemUsageUser store) list" where
  "fields_ItemUsageUser =
     [(''uuid'', at_field ItemUsageUser_UUID (\<lambda>x v. v\<lparr>ItemUsageUser_UUID := x\<rparr>) store_string),
      (''name'', at_field ItemUsageUser_Name (\<lambda>x v. v\<lparr>ItemUsageUser_Name := x\<rparr>) store_string),
      (''email'', at_field ItemUsageUser_Email (\<lambda>x v. v\<lparr>ItemUsageUser_Email := x\<rparr>) store_string)]"

definition store_ItemUsageUser :: "ItemUsageUser store" where
  "store_ItemUsageUser = store_struct (fields_ItemUsageUser) ''api.ItemUsageUser''"

record ItemUsageClient =
  ItemUsageClient_AppName :: string
  ItemUsageClient_AppVersion :: string
  ItemUsageClient_PlatformName :: string
  ItemUsageClient_PlatformVersion :: string
  ItemUsageClient_OSName :: string
  ItemUsageClient_OSVersion :: string
  ItemUsageClient_IPAddress :: string

definition zero_ItemUsageClient :: ItemUsageClient where
  "zero_ItemUsageClient =
     \<lparr>ItemUsageClient_AppName = [],
      ItemUsageClient_AppVersion = [],
      ItemUsageClient_PlatformName = [],
      ItemUsageClient_PlatformVersion = [],
      ItemUsageClient_OSName = [],
      ItemUsageClient_OSVersion = [],
      ItemUsageClient_IPAddress = []\<rparr>"

definition fields_ItemUsageClient :: "(string \<times> ItemUsageClient store) list" where
  "fields_ItemUsageClient =
     [(''app_name'', at_field ItemUsageClient_AppName (\<lambda>x v. v\<lparr>ItemUsageClient_AppName := x\<rparr>) store_string),
      (''app_version'', at_field ItemUsageClient_AppVersion (\<lambda>x v. v\<lparr>ItemUsageClient_AppVersion := x\<rparr>) store_string),
      (''platform_name'', at_field ItemUsageClient_PlatformName (\<lambda>x v. v\<lparr>ItemUsageClient_PlatformName := x\<rparr>) store_string),
      (''platform_version'', at_field ItemUsageClient_PlatformVersion (\<lambda>x v. v\<lparr>ItemUsageClient_PlatformVersion := x\<rparr>) store_string),
      (''os_name'', at_field ItemUsageClient_OSName (\<lambda>x v. v\<lparr>ItemUsageClient_OSName := x\<rparr>) store_string),
      (''os_version'', at_field ItemUsageClient_OSVersion (\<lambda>x v. v\<lparr>ItemUsageClient_OSVersion := x\<rparr>) store_string),
      (''ip_address'', at_field ItemUsageClient_IPAddress (\<lambda>x v. v\<lparr>ItemUsageClient_IPAddress := x\<rparr>) store_string)]"

definition store_ItemUsageClient :: "ItemUsageClient store" where
  "store_ItemUsageClient = store_struct (fields_ItemUsageClient) ''api.ItemUsageClient''"

record ItemUsage =
  ItemUsage_UUID :: string
  ItemUsage_Timestamp :: Time
  ItemUsage_UsedVersion :: "32 word"
  ItemUsage_VaultUUID :: string
  ItemUsage_ItemUUID :: string
  ItemUsage_ItemUsageUser :: ItemUsageUser
  ItemUsage_ItemUsageClient :: ItemUsageClient

definition zero_ItemUsage :: ItemUsage where
  "zero_ItemUsage =
     \<lparr>ItemUsage_UUID = [],
      ItemUsage_Timestamp = zero_Time,
      ItemUsage_UsedVersion = 0,
      ItemUsage_VaultUUID = [],
      ItemUsage_ItemUUID = [],
      ItemUsage_ItemUsageUser = zero_ItemUsageUser,
      ItemUsage_ItemUsageClient = zero_ItemUsageClient\<rparr>"

definition fields_ItemUsage :: "UnmarshalTime \<Rightarrow> (string \<times> ItemUsage store) list" where
  "fields_ItemUsage um =
     [(''uuid'', at_field ItemUsage_UUID (\<lambda>x v. v\<lparr>ItemUsage_UUID := x\<rparr>) store_string),
      (''timestamp'', at_field ItemUsage_Timestamp (\<lambda>x v. v\<lparr>ItemUsage_Timestamp := x\<rparr>) (store_Time um)),
      (''used_version'', at_field ItemUsage_UsedVersion (\<lambda>x v. v\<lparr>ItemUsage_UsedVersion := x\<rparr>) store_uint32),
      (''vault_uuid'', at_field ItemUsage_VaultUUID (\<lambda>x v. v\<lparr>ItemUsage_VaultUUID := x\<rparr>) store_string),
      (''item_uuid'', at_field ItemUsage_ItemUUID (\<lambda>x v. v\<lparr>ItemUsage_ItemUUID := x\<rparr>) store_string),
      (''user'', at_field ItemUsage_ItemUsageUser (\<lambda>x v. v\<lparr>ItemUsage_ItemUsageUser := x\<rparr>) store_ItemUsageUser),
      (''client'', at_field ItemUsage_ItemUsageClient (\<lambda>x v. v\<lparr>ItemUsage_ItemUsageClient := x\<rparr>) store_ItemUsageClient)]"

definition store_ItemUsage :: "UnmarshalTime \<Rightarrow> ItemUsage store" where
  "store_ItemUsage um = store_struct (fields_ItemUsage um) ''api.ItemUsage''"

record ItemUsageResponse =
  ItemUsageResponse_Cursor :: string
  ItemUsageResponse_HasMore :: bool
  ItemUsageResponse_Items :: "ItemUsage list"

definition zero_ItemUsageResponse :: ItemUsageResponse where
  "zero_ItemUsageResponse =
     \<lparr>ItemUsageResponse_Cursor = [],
      ItemUsageResponse_HasMore = False,
      ItemUsageResponse_Items = []\<rparr>"

definition fields_ItemUsageResponse :: "UnmarshalTime \<Rightarrow> (string \<times> ItemUsageResponse store) list" where
  "fields_ItemUsageResponse um =
     [(''cursor'', at_field ItemUsageResponse_Cursor (\<lambda>x v. v\<lparr>ItemUsageResponse_Cursor := x\<rparr>) store_string),
      (''has_more'', at_field ItemUsageResponse_HasMore (\<lambda>x v. v\<lparr>ItemUsageResponse_HasMore := x\<rparr>) store_bool),
      (''items'', at_field ItemUsageResponse_Items (\<lambda>x v. v\<lparr>ItemUsageResponse_Items := x\<rparr>) (store_slice (store_ItemUsage um) zero_ItemUsage ''[]api.ItemUsage''))]"

definition store_ItemUsageResponse :: "UnmarshalTime \<Rightarrow> ItemUsageResponse store" where
  "store_ItemUsageResponse um = store_struct (fields_ItemUsageResponse um) ''api.ItemUsageResponse''"

record IntrospectResponse =
  IntrospectResponse_UUID :: string
  IntrospectResponse_IssuedAt :: Time
  IntrospectResponse_Features :: "string list"

definition zero_IntrospectResponse :: IntrospectResponse where
  "zero_IntrospectResponse =
     \<lparr>IntrospectResponse_UUID = [],
      IntrospectResponse_IssuedAt = zero_Time,
      IntrospectResponse_Features = []\<rparr>"

definition fields_IntrospectResponse :: "UnmarshalTime \<Rightarrow> (string \<times> IntrospectResponse store) list" where
  "fields_IntrospectResponse um =
     [(''UUID'', at_field IntrospectResponse_UUID (\<lambda>x v. v\<lparr>IntrospectResponse_UUID := x\<rparr>) store_string),
      (''IssuedAt'', at_field IntrospectResponse_IssuedAt (\<lambda>x v. v\<lparr>IntrospectResponse_IssuedAt := x\<rparr>) (store_Time um)),
      (''Features'', at_field IntrospectResponse_Features (\<lambda>x v. v\<lparr>IntrospectResponse_Features := x\<rparr>) (store_slice store_string [] ''[]string''))]"

definition store_IntrospectResponse :: "UnmarshalTime \<Rightarrow> IntrospectResponse store" where
  "store_IntrospectResponse um = store_struct (fields_IntrospectResponse um) ''api.IntrospectResponse''"

subsection \<open>The environment of the client\<close>

text \<open>
  What the package takes from outside the file: the two helpers of package \<open>utils\<close>
  (\<open>ParseJWTClaims\<close>, and the method \<open>GetEventsURL\<close> of the claims \<open>'j\<close> it returns), the
  constant \<open>version.Version\<close>, the rest of net/url's parser, the retrying HTTP client behind
  \<open>httpClient.Do\<close>, the scanner of encoding/json and \<open>time.Time\<close>'s \<open>UnmarshalJSON\<close>.

  \<open>Do\<close> runs in a world \<open>'w\<close> (the server, the network, the connection pool), which it may
  change. \<open>scan\<close> gives the first JSON value in the bytes of a body, or \<open>None\<close> when they do
  not begin with one.
\<close>

record ('j, 'w) env =
  ParseJWTClaims :: "string \<Rightarrow> error + 'j"
  GetEventsURL :: "'j \<Rightarrow> error + string"
  Version :: string
  parse_rest :: "string \<Rightarrow> bool"
  Do :: "'w \<Rightarrow> request \<Rightarrow> (error + response) \<times> 'w"
  scan :: "string \<Rightarrow> json option"
  time_UnmarshalJSON :: UnmarshalTime

definition DefaultUserAgent :: "('j, 'w) env \<Rightarrow> string" where
  "DefaultUserAgent env = ''1Password Events API Beats / '' @ Version env"

text \<open>
  \<open>json.NewDecoder(body).Decode(&v)\<close>: the decoder reads the body, which fails when the
  body is closed; then scans one JSON value and stores it into \<open>v\<close>. It returns \<open>v\<close> as
  far as it was filled, and the error when there is one.
\<close>

definition Decode :: "(string \<Rightarrow> json option) \<Rightarrow> 'a store \<Rightarrow> body \<Rightarrow> 'a \<Rightarrow> 'a \<times> error option" where
  "Decode sc st b v =
     (case ReadAll b of
        Inl e \<Rightarrow> (v, Some e)
      | Inr bytes \<Rightarrow>
          (case sc bytes of
             None \<Rightarrow> (v, Some (ErrorString ''json: syntax error''))
           | Some j \<Rightarrow> (value_of (st j v), error_of (st j v))))"

subsection \<open>newAPIRequest\<close>

text \<open>
  The error of \<open>http.NewRequestWithContext\<close> is dropped (\<open>request, _ :=\<close>): when there is
  one, \<open>request\<close> is nil and \<open>request.Header.Add\<close> dereferences it.
\<close>

definition newAPIRequest ::
  "('j, 'w) env \<Rightarrow> string \<Rightarrow> string \<Rightarrow> string \<Rightarrow> string option \<Rightarrow> (error + request) go" where
  "newAPIRequest env method bearerToken path rbody =
     (case ParseJWTClaims env bearerToken of
        Inl e \<Rightarrow> Returns (Inl e)
      | Inr jwt \<Rightarrow>
          (case GetEventsURL env jwt of
             Inl e \<Rightarrow> Returns (Inl e)
           | Inr url \<Rightarrow>
               (case NewRequestWithContext (parse_rest env) method (url @ path) rbody of
                  Inl _ \<Rightarrow> Panics ''runtime error: invalid memory address or nil pointer dereference''
                | Inr request \<Rightarrow>
                    Returns (Inr (request
                      \<lparr>Header :=
                         Header_Add
                           (Header_Add (Header request) ''Authorization'' (''Bearer '' @ bearerToken))
                           ''User-Agent'' (DefaultUserAgent env)\<rparr>)))))"

subsection \<open>The three operations\<close>

text \<open>
  What a call leaves behind: what it returned, the requests it handed to \<open>httpClient.Do\<close>,
  the body of the response at the moment of the return (when the transport gave a
  response), and the world after the call. The \<open>Client\<close> has one field, the HTTP client,
  which no operation assigns; it is the \<open>Do\<close> of the environment.
\<close>

record ('a, 'w) outcome =
  returned :: "error + 'a"
  sent :: "request list"
  body_after :: "body option"
  world :: 'w

definition Introspect ::
  "('j, 'w) env \<Rightarrow> 'w \<Rightarrow> string \<Rightarrow> (IntrospectResponse, 'w) outcome go" where
  "Introspect env w bearerToken =
     (case newAPIRequest env ''GET'' bearerToken ''/api/auth/introspect'' None of
        Panics m \<Rightarrow> Panics m
      | Returns (Inl e) \<Rightarrow>
          Returns \<lparr>returned = Inl (Wrapped ''failed to create new API request. '' e),
                   sent = [], body_after = None, world = w\<rparr>
      | Returns (Inr request) \<Rightarrow>
          (case Do env w request of
             (Inl e, w') \<Rightarrow>
               Returns \<lparr>returned = Inl e, sent = [request], body_after = None, world = w'\<rparr>
           | (Inr response, w') \<Rightarrow>
               (let b = Close (Body response) in
                Returns
                  \<lparr>returned =
                     (if StatusCode response \<noteq> 200
                      then Inl (ErrorString (''unexpected status code: '' @ Status response))
                      else case Decode (scan env) (store_IntrospectResponse (time_UnmarshalJSON env))
                                  b zero_IntrospectResponse of
                             (v, Some e) \<Rightarrow> Inl (Wrapped ''failed to unmarshal response. '' e)
                           | (v, None) \<Rightarrow> Inr v),
                   sent = [request], body_after = Some b, world = w'\<rparr>)))"

text \<open>
  In the two fetch operations the \<open>Close\<close> is deferred: the body is read open, and it is
  closed when the function returns, whichever \<open>return\<close> is taken.
\<close>

definition SignInAttempts ::
  "('j, 'w) env \<Rightarrow> 'w \<Rightarrow> string \<Rightarrow> string \<Rightarrow> (SignInAttemptResponse, 'w) outcome go" where
  "SignInAttempts env w bearerToken cursor =
     (case newAPIRequest env ''POST'' bearerToken ''/api/v1/signinattempts'' (Some cursor) of
        Panics m \<Rightarrow> Panics m
      | Returns (Inl e) \<Rightarrow>
          Returns \<lparr>returned = Inl (Wrapped ''failed to create new API request. '' e),
                   sent = [], body_after = None, world = w\<rparr>
      | Returns (Inr request) \<Rightarrow>
          (case Do env w request of
             (Inl e, w') \<Rightarrow>
               Returns \<lparr>returned = Inl e, sent = [request], body_after = None, world = w'\<rparr>
           | (Inr response, w') \<Rightarrow>
               Returns
                 \<lparr>returned =
                    (if StatusCode response \<noteq> 200
                     then Inl (ErrorString (''unexpected status code: '' @ Status response))
                     else case Decode (scan env) (store_SignInAttemptResponse (time_UnmarshalJSON env))
                                 (Body response) zero_SignInAttemptResponse of
                            (v, Some e) \<Rightarrow> Inl (Wrapped ''failed to unmarshal response. '' e)
                          | (v, None) \<Rightarrow> Inr v),
                  sent = [request], body_after = Some (Close (Body response)), world = w'\<rparr>))"

definition ItemUsages ::
  "('j, 'w) env \<Rightarrow> 'w \<Rightarrow> string \<Rightarrow> string \<Rightarrow> (ItemUsageResponse, 'w) outcome go" where
  "ItemUsages env w bearerToken cursor =
     (case newAPIRequest env ''POST'' bearerToken ''/api/v1/itemusages'' (Some cursor) of
        Panics m \<Rightarrow> Panics m
      | Returns (Inl e) \<Rightarrow>
          Returns \<lparr>returned = Inl (Wrapped ''failed to create new API request. '' e),
                   sent = [], body_after = None, world = w\<rparr>
      | Returns (Inr request) \<Rightarrow>
          (case Do env w request of
             (Inl e, w') \<Rightarrow>
               Returns \<lparr>returned = Inl e, sent = [request], body_after = None, world = w'\<rparr>
           | (Inr response, w') \<Rightarrow>
               Returns
                 \<lparr>returned =
                    (if StatusCode response \<noteq> 200
                     then Inl (ErrorString (''unexpected status code: '' @ Status response))
                     else case Decode (scan env) (store_ItemUsageResponse (time_UnmarshalJSON env))
                                 (Body response) zero_ItemUsageResponse of
                            (v, Some e) \<Rightarrow> Inl (Wrapped ''failed to unmarshal response. '' e)
                          | (v, None) \<Rightarrow> Inr v),
                  sent = [request], body_after = Some (Close (Body response)), world = w'\<rparr>))"

subsection \<open>A concrete environment\<close>

text \<open>
  An environment to run the operations in: three tokens (one good, one without the events
  URL, one whose events URL holds the control byte DEL) and any other token undecodable; a
  server given as a function of the request; a world that counts the requests; a scanner
  that knows three bodies; a time parser that knows one timestamp.
\<close>

definition demo_ParseJWTClaims :: "string \<Rightarrow> error + string option" where
  "demo_ParseJWTClaims tok =
     (if tok = ''tok.good'' then Inr (Some ''https://events.1password.com'')
      else if tok = ''tok.nourl'' then Inr None
      else if tok = ''tok.badurl'' then Inr (Some (''https://events.1password.com'' @ [CHR 0x7F]))
      else Inl (ErrorString ''invalid token''))"

definition demo_GetEventsURL :: "string option \<Rightarrow> error + string" where
  "demo_GetEventsURL claims =
     (case claims of None \<Rightarrow> Inl (ErrorString ''no events URL'') | Some u \<Rightarrow> Inr u)"

definition demo_time :: UnmarshalTime where
  "demo_time j v =
     (case j of
        JNull \<Rightarrow> Inr v
      | JString s \<Rightarrow>
          (if s = ''2021-03-01T00:00:00Z'' then Inr (Time 1614556800 0)
           else Inl (ErrorString ''parsing time''))
      | _ \<Rightarrow> Inl (ErrorString ''Time.UnmarshalJSON: input is not a JSON string''))"

definition demo_introspection :: string where
  \<open>demo_introspection =
     ''{"UUID":"T1","IssuedAt":"2021-03-01T00:00:00Z","Features":["signinattempts"]}''\<close>

definition demo_batch :: string where
  \<open>demo_batch = ''{"cursor":"c2","has_more":false,"items":[{"uuid":"A1"}]}''\<close>

definition demo_bad_batch :: string where
  \<open>demo_bad_batch = ''{"cursor":"c2","has_more":7,"items":[{"uuid":"A1"}]}''\<close>

definition demo_scan :: "string \<Rightarrow> json option" where
  "demo_scan bytes =
     (if bytes = demo_introspection
      then Some (JObject [(''UUID'', JString ''T1''), (''IssuedAt'', JString ''2021-03-01T00:00:00Z''),
                          (''Features'', JArray [JString ''signinattempts''])])
      else if bytes = demo_batch
      then Some (JObject [(''cursor'', JString ''c2''), (''has_more'', JBool False),
                          (''items'', JArray [JObject [(''uuid'', JString ''A1'')]])])
      else if bytes = demo_bad_batch
      then Some (JObject [(''cursor'', JString ''c2''), (''has_more'', JNumber ''7''),
                          (''items'', JArray [JObject [(''uuid'', JString ''A1'')]])])
      else None)"

definition demo_env :: "(request \<Rightarrow> error + response) \<Rightarrow> (string option, nat) env" where
  "demo_env server =
     \<lparr>ParseJWTClaims = demo_ParseJWTClaims,
      GetEventsURL = demo_GetEventsURL,
      Version = ''1.2.3'',
      parse_rest = (\<lambda>s. True),
      Do = (\<lambda>w rq. (server rq, Suc w)),
      scan = demo_scan,
      time_UnmarshalJSON = demo_time\<rparr>"

definition demo_response :: "int \<Rightarrow> string \<Rightarrow> string \<Rightarrow> response" where
  "demo_response code status bytes =
     \<lparr>StatusCode = code, Status = status, Body = \<lparr>content = bytes, closed = False\<rparr>\<rparr>"

definition demo_request :: "string \<Rightarrow> string \<Rightarrow> string option \<Rightarrow> request" where
  "demo_request method path rbody =
     \<lparr>Method = method, URL = ''https://events.1password.com'' @ path,
      Header = Header_Add (Header_Add (\<lambda>k. []) ''Authorization'' ''Bearer tok.good'')
                 ''User-Agent'' ''1Password Events API Beats / 1.2.3'',
      ReqBody = rbody\<rparr>"

definition demo_server :: "response \<Rightarrow> request \<Rightarrow> error + response" where
  "demo_server rs rq = Inr rs"

subsection \<open>encoding/json's encoding of a SignInAttempt\<close>

text \<open>
  \<open>json.Marshal\<close> of a \<open>SignInAttempt\<close>, as the JSON value it writes: an object with one
  member for each field, in the order of the declaration and under the name of the tag
  (no field has \<open>omitempty\<close>); a nil pointer is \<open>null\<close>. The method \<open>MarshalJSON\<close> of
  \<open>time.Time\<close> is the parameter \<open>tm\<close>; when it fails, so does the encoding. A string is
  written after \<open>co\<close>, the coercion of the encoder to valid UTF-8.
\<close>

definition encode_SignInAttemptDetails :: "(string \<Rightarrow> string) \<Rightarrow> SignInAttemptDetails \<Rightarrow> json" where
  "encode_SignInAttemptDetails co d =
     JObject [(''value'', JString (co (SignInAttemptDetails_Value d)))]"

definition encode_SignInAttemptTargetUser ::
  "(string \<Rightarrow> string) \<Rightarrow> SignInAttemptTargetUser \<Rightarrow> json" where
  "encode_SignInAttemptTargetUser co u =
     JObject [(''uuid'', JString (co (SignInAttemptTargetUser_UUID u))),
              (''name'', JString (co (SignInAttemptTargetUser_Name u))),
              (''email'', JString (co (SignInAttemptTargetUser_Email u)))]"

definition encode_SignInAttemptClient :: "(string \<Rightarrow> string) \<Rightarrow> SignInAttemptClient \<Rightarrow> json" where
  "encode_SignInAttemptClient co c =
     JObject [(''app_name'', JString (co (SignInAttemptClient_AppName c))),
              (''app_version'', JString (co (SignInAttemptClient_AppVersion c))),
              (''platform_name'', JString (co (SignInAttemptClient_PlatformName c))),
              (''platform_version'', JString (co (SignInAttemptClient_PlatformVersion c))),
              (''os_name'', JString (co (SignInAttemptClient_OSName c))),
              (''os_version'', JString (co (SignInAttemptClient_OSVersion c))),
              (''ip_address'', JString (co (SignInAttemptClient_IPAddress c)))]"

definition encode_SignInAttempt ::
  "(Time \<Rightarrow> error + json) \<Rightarrow> (string \<Rightarrow> string) \<Rightarrow> SignInAttempt \<Rightarrow> error + json" where
  "encode_SignInAttempt tm co a =
     (case tm (SignInAttempt_Timestamp a) of
        Inl e \<Rightarrow> Inl e
      | Inr t \<Rightarrow>
          Inr (JObject
            [(''uuid'', JString (co (SignInAttempt_UUID a))),
             (''session_uuid'', JString (co (SignInAttempt_SessionUUID a))),
             (''timestamp'', t),
             (''country'', JString (co (SignInAttempt_Country a))),
             (''category'', JString (co (SignInAttempt_Category a))),
             (''type'', JString (co (SignInAttempt_Type a))),
             (''details'',
                (case SignInAttempt_Details a of
                   None \<Rightarrow> JNull
                 | Some d \<Rightarrow> encode_SignInAttemptDetails co d)),
             (''target_user'', encode_SignInAttemptTargetUser co (SignInAttempt_SignInAttemptTargetUser a)),
             (''client'', encode_SignInAttemptClient co (SignInAttempt_SignInAttemptClient a))]))"

definition demo_time_Marshal :: "Time \<Rightarrow> error + json" where
  "demo_time_Marshal t =
     (if t = Time 1614556800 0 then Inr (JString ''2021-03-01T00:00:00Z'')
      else Inl (ErrorString ''Time.MarshalJSON: year outside of range [0,9999]''))"

section \<open>Properties\<close>

subsection \<open>The operations, once the transport has answered\<close>

lemma Introspect_response:
  assumes "newAPIRequest env ''GET'' tok ''/api/auth/introspect'' None = Returns (Inr rq)"
    and "Do env w rq = (Inr rs, w')"
  shows "Introspect env w tok =
     Returns \<lparr>returned =
        (if StatusCode rs \<noteq> 200
         then Inl (ErrorString (''unexpected status code: '' @ Status rs))
         else case Decode (scan env) (store_IntrospectResponse (time_UnmarshalJSON env))
                   (Close (Body rs)) zero_IntrospectResponse of
                (v, Some e) \<Rightarrow> Inl (Wrapped ''failed to unmarshal response. '' e)
              | (v, None) \<Rightarrow> Inr v),
       sent = [rq], body_after = Some (Close (Body rs)), world = w'\<rparr>"
  using assms by (simp add: Introspect_def Let_def)

lemma SignInAttempts_response:
  assumes "newAPIRequest env ''POST'' tok ''/api/v1/signinattempts'' (Some cursor) = Returns (Inr rq)"
    and "Do env w rq = (Inr rs, w')"
  shows "SignInAttempts env w tok cursor =
     Returns \<lparr>returned =
        (if StatusCode rs \<noteq> 200
         then Inl (ErrorString (''unexpected status code: '' @ Status rs))
         else case Decode (scan env) (store_SignInAttemptResponse (time_UnmarshalJSON env))
                   (Body rs) zero_SignInAttemptResponse of
                (v, Some e) \<Rightarrow> Inl (Wrapped ''failed to unmarshal response. '' e)
              | (v, None) \<Rightarrow> Inr v),
       sent = [rq], body_after = Some (Close (Body rs)), world = w'\<rparr>"
  using assms by (simp add: SignInAttempts_def)

lemma ItemUsages_response:
  assumes "newAPIRequest env ''POST'' tok ''/api/v1/itemusages'' (Some cursor) = Returns (Inr rq)"
    and "Do env w rq = (Inr rs, w')"
  shows "ItemUsages env w tok cursor =
     Returns \<lparr>returned =
        (if StatusCode rs \<noteq> 200
         then Inl (ErrorString (''unexpected status code: '' @ Status rs))
         else case Decode (scan env) (store_ItemUsageResponse (time_UnmarshalJSON env))
                   (Body rs) zero_ItemUsageResponse of
                (v, Some e) \<Rightarrow> Inl (Wrapped ''failed to unmarshal response. '' e)
              | (v, None) \<Rightarrow> Inr v),
       sent = [rq], body_after = Some (Close (Body rs)), world = w'\<rparr>"
  using assms by (simp add: ItemUsages_def)

lemma newAPIRequest_built:
  assumes "ParseJWTClaims env tok = Inr jwt" and "GetEventsURL env jwt = Inr url"
    and "validMethod method" and "url_Parse (parse_rest env) (url @ path) = Inr u"
  shows "newAPIRequest env method tok path rbody =
     Returns (Inr \<lparr>Method = method, URL = url @ path,
        Header = Header_Add (Header_Add (\<lambda>k. []) ''Authorization'' (''Bearer '' @ tok))
                   ''User-Agent'' (DefaultUserAgent env),
        ReqBody = rbody\<rparr>)"
proof -
  have u: "u = url @ path"
    using assms(4) by (simp add: url_Parse_def split: if_splits)
  have m: "method \<noteq> []"
    using assms(3) by (simp add: validMethod_def)
  show ?thesis
    using assms m by (simp add: newAPIRequest_def NewRequestWithContext_def u)
qed

lemma validMethod_GET: "validMethod ''GET''"
  by (simp add: validMethod_def isTokenRune_def isLower_def isUpper_def isDigit_def byte_def)

lemma validMethod_POST: "validMethod ''POST''"
  by (simp add: validMethod_def isTokenRune_def isLower_def isUpper_def isDigit_def byte_def)

lemma demo_newAPIRequest:
  assumes "validMethod method" and "\<not> stringContainsCTLByte path"
  shows "newAPIRequest (demo_env server) method ''tok.good'' path rbody =
     Returns (Inr (demo_request method path rbody))"
proof -
  have "\<not> stringContainsCTLByte (takeWhile (\<lambda>c. c \<noteq> CHR ''#'') (''https://events.1password.com'' @ path))"
    using assms(2)
    by (auto simp add: stringContainsCTLByte_def list_ex_iff byte_def dest!: set_takeWhileD)
  then have "url_Parse (parse_rest (demo_env server)) (''https://events.1password.com'' @ path)
      = Inr (''https://events.1password.com'' @ path)"
    by (simp add: url_Parse_def demo_env_def)
  then show ?thesis
    using newAPIRequest_built [of "demo_env server" "''tok.good''"
        "Some ''https://events.1password.com''" "''https://events.1password.com''" "method" "path" _
        rbody]
      assms(1)
    by (simp add: demo_env_def demo_ParseJWTClaims_def demo_GetEventsURL_def demo_request_def
        DefaultUserAgent_def)
qed

lemma demo_paths:
  "\<not> stringContainsCTLByte ''/api/auth/introspect''"
  "\<not> stringContainsCTLByte ''/api/v1/signinattempts''"
  "\<not> stringContainsCTLByte ''/api/v1/itemusages''"
  by (simp_all add: stringContainsCTLByte_def byte_def)

lemma demo_Do: "Do (demo_env server) w rq = (server rq, Suc w)"
  by (simp add: demo_env_def)

subsection \<open>A status other than 200\<close>

text \<open>
  Claim C3. When the transport returns a response whose status code is not 200, each of
  the three operations returns an error, and so no decoded result; the error is
  ``unexpected status code: '' followed by the status of the response as it was received.
\<close>

theorem unexpected_status_is_returned:
  assumes "Do env w rq = (Inr rs, w')" and "StatusCode rs \<noteq> 200"
  shows "(newAPIRequest env ''GET'' tok ''/api/auth/introspect'' None = Returns (Inr rq) \<longrightarrow>
            (\<exists>out. Introspect env w tok = Returns out \<and>
               returned out = Inl (ErrorString (''unexpected status code: '' @ Status rs)))) \<and>
         (newAPIRequest env ''POST'' tok ''/api/v1/signinattempts'' (Some cursor) = Returns (Inr rq) \<longrightarrow>
            (\<exists>out. SignInAttempts env w tok cursor = Returns out \<and>
               returned out = Inl (ErrorString (''unexpected status code: '' @ Status rs)))) \<and>
         (newAPIRequest env ''POST'' tok ''/api/v1/itemusages'' (Some cursor) = Returns (Inr rq) \<longrightarrow>
            (\<exists>out. ItemUsages env w tok cursor = Returns out \<and>
               returned out = Inl (ErrorString (''unexpected status code: '' @ Status rs))))"
  using assms
  by (simp add: Introspect_response SignInAttempts_response ItemUsages_response)

theorem unexpected_status_is_returned_witness:
  "(\<exists>out. Introspect (demo_env (\<lambda>rq. Inr (demo_response 401 ''401 Unauthorized'' ''''))) 0 ''tok.good''
        = Returns out \<and>
      returned out = Inl (ErrorString ''unexpected status code: 401 Unauthorized'')) \<and>
   (\<exists>out. SignInAttempts (demo_env (\<lambda>rq. Inr (demo_response 403 ''403 Forbidden'' ''''))) 0 ''tok.good'' ''c1''
        = Returns out \<and>
      returned out = Inl (ErrorString ''unexpected status code: 403 Forbidden'')) \<and>
   (\<exists>out. ItemUsages (demo_env (\<lambda>rq. Inr (demo_response 500 ''500 Internal Server Error'' ''''))) 0 ''tok.good'' ''''
        = Returns out \<and>
      returned out = Inl (ErrorString ''unexpected status code: 500 Internal Server Error''))"
proof -
  have a: "StatusCode (demo_response 401 ''401 Unauthorized'' '''') \<noteq> 200"
    and b: "StatusCode (demo_response 403 ''403 Forbidden'' '''') \<noteq> 200"
    and c: "StatusCode (demo_response 500 ''500 Internal Server Error'' '''') \<noteq> 200"
    by (simp_all add: demo_response_def)
  have s: "Status (demo_response code st bytes) = st" for code st bytes
    by (simp add: demo_response_def)
  show ?thesis
    using unexpected_status_is_returned
        [where w = "0::nat" and rq = "demo_request ''GET'' ''/api/auth/introspect'' None"
           and tok = "''tok.good''" and cursor = "''''", OF demo_Do a]
      unexpected_status_is_returned
        [where w = "0::nat" and rq = "demo_request ''POST'' ''/api/v1/signinattempts'' (Some ''c1'')"
           and tok = "''tok.good''" and cursor = "''c1''", OF demo_Do b]
      unexpected_status_is_returned
        [where w = "0::nat" and rq = "demo_request ''POST'' ''/api/v1/itemusages'' (Some '''')"
           and tok = "''tok.good''" and cursor = "''''", OF demo_Do c]
    by (simp add: demo_newAPIRequest validMethod_GET validMethod_POST demo_paths s)
qed

subsection \<open>Evaluating the decoders\<close>

lemmas store_defs =
  store_struct_def at_field_def store_string_def store_bool_def store_uint32_def
  store_ptr_def store_slice_def store_Time_def keyMatches_def saveError_def
  toUpper_def isLower_def byte_def

lemma demo_bad_batch_SignIn:
  "Decode demo_scan (store_SignInAttemptResponse demo_time)
     \<lparr>content = demo_bad_batch, closed = False\<rparr> zero_SignInAttemptResponse =
   (\<lparr>SignInAttemptResponse_Cursor = ''c2'', SignInAttemptResponse_HasMore = False,
     SignInAttemptResponse_Items = [zero_SignInAttempt\<lparr>SignInAttempt_UUID := ''A1''\<rparr>]\<rparr>,
    Some (UnmarshalTypeError ''bool''))"
  by (simp add: Decode_def ReadAll_def demo_scan_def store_SignInAttemptResponse_def
      fields_SignInAttemptResponse_def store_SignInAttempt_def fields_SignInAttempt_def
      zero_SignInAttemptResponse_def store_defs demo_bad_batch_def demo_batch_def
      demo_introspection_def)

lemma demo_bad_batch_ItemUsage:
  "Decode demo_scan (store_ItemUsageResponse demo_time)
     \<lparr>content = demo_bad_batch, closed = False\<rparr> zero_ItemUsageResponse =
   (\<lparr>ItemUsageResponse_Cursor = ''c2'', ItemUsageResponse_HasMore = False,
     ItemUsageResponse_Items = [zero_ItemUsage\<lparr>ItemUsage_UUID := ''A1''\<rparr>]\<rparr>,
    Some (UnmarshalTypeError ''bool''))"
  by (simp add: Decode_def ReadAll_def demo_scan_def store_ItemUsageResponse_def
      fields_ItemUsageResponse_def store_ItemUsage_def fields_ItemUsage_def
      zero_ItemUsageResponse_def store_defs demo_bad_batch_def demo_batch_def
      demo_introspection_def)

subsection \<open>Closing the response body\<close>

text \<open>
  Claim C2. Whenever the transport returns a response, each of the three operations
  returns with the body of that response closed, whatever the status and whether or not
  the body decodes: no hypothesis is made on either. \<open>Introspect\<close> closes the body at once,
  the two fetch operations when they return.
\<close>

theorem body_closed_on_every_return:
  assumes "Do env w rq = (Inr rs, w')"
  shows "(newAPIRequest env ''GET'' tok ''/api/auth/introspect'' None = Returns (Inr rq) \<longrightarrow>
            (\<exists>out b. Introspect env w tok = Returns out \<and> body_after out = Some b \<and>
               closed b \<and> content b = content (Body rs))) \<and>
         (newAPIRequest env ''POST'' tok ''/api/v1/signinattempts'' (Some cursor) = Returns (Inr rq) \<longrightarrow>
            (\<exists>out b. SignInAttempts env w tok cursor = Returns out \<and> body_after out = Some b \<and>
               closed b \<and> content b = content (Body rs))) \<and>
         (newAPIRequest env ''POST'' tok ''/api/v1/itemusages'' (Some cursor) = Returns (Inr rq) \<longrightarrow>
            (\<exists>out b. ItemUsages env w tok cursor = Returns out \<and> body_after out = Some b \<and>
               closed b \<and> content b = content (Body rs)))"
  using assms
  by (simp add: Introspect_response SignInAttempts_response ItemUsages_response Close_def)

theorem body_closed_on_every_return_witness:
  "(\<exists>out b. Introspect (demo_env (\<lambda>rq. Inr (demo_response 401 ''401 Unauthorized'' ''denied''))) 0 ''tok.good''
        = Returns out \<and>
      body_after out = Some b \<and> closed b \<and> content b = ''denied'') \<and>
   (\<exists>out b. SignInAttempts (demo_env (\<lambda>rq. Inr (demo_response 200 ''200 OK'' demo_bad_batch))) 0 ''tok.good'' ''c1''
        = Returns out \<and>
      body_after out = Some b \<and> closed b \<and> content b = demo_bad_batch) \<and>
   (\<exists>out b. ItemUsages (demo_env (\<lambda>rq. Inr (demo_response 200 ''200 OK'' demo_batch))) 0 ''tok.good'' ''c1''
        = Returns out \<and>
      body_after out = Some b \<and> closed b \<and> content b = demo_batch)"
proof -
  have c: "content (Body (demo_response code st bytes)) = bytes" for code st bytes
    by (simp add: demo_response_def)
  show ?thesis
    using body_closed_on_every_return
        [where w = "0::nat" and rq = "demo_request ''GET'' ''/api/auth/introspect'' None"
           and tok = "''tok.good''" and cursor = "''c1''"
           and rs = "demo_response 401 ''401 Unauthorized'' ''denied''", OF demo_Do]
      body_closed_on_every_return
        [where w = "0::nat" and rq = "demo_request ''POST'' ''/api/v1/signinattempts'' (Some ''c1'')"
           and tok = "''tok.good''" and cursor = "''c1''"
           and rs = "demo_response 200 ''200 OK'' demo_bad_batch", OF demo_Do]
      body_closed_on_every_return
        [where w = "0::nat" and rq = "demo_request ''POST'' ''/api/v1/itemusages'' (Some ''c1'')"
           and tok = "''tok.good''" and cursor = "''c1''"
           and rs = "demo_response 200 ''200 OK'' demo_batch", OF demo_Do]
    by (simp add: demo_newAPIRequest validMethod_GET validMethod_POST demo_paths c)
qed

subsection \<open>A credential that does not resolve\<close>

lemma Introspect_no_request:
  assumes "newAPIRequest env ''GET'' tok ''/api/auth/introspect'' None = Returns (Inl e)"
  shows "Introspect env w tok =
     Returns \<lparr>returned = Inl (Wrapped ''failed to create new API request. '' e),
              sent = [], body_after = None, world = w\<rparr>"
  using assms by (simp add: Introspect_def)

lemma SignInAttempts_no_request:
  assumes "newAPIRequest env ''POST'' tok ''/api/v1/signinattempts'' (Some cursor) = Returns (Inl e)"
  shows "SignInAttempts env w tok cursor =
     Returns \<lparr>returned = Inl (Wrapped ''failed to create new API request. '' e),
              sent = [], body_after = None, world = w\<rparr>"
  using assms by (simp add: SignInAttempts_def)

lemma ItemUsages_no_request:
  assumes "newAPIRequest env ''POST'' tok ''/api/v1/itemusages'' (Some cursor) = Returns (Inl e)"
  shows "ItemUsages env w tok cursor =
     Returns \<lparr>returned = Inl (Wrapped ''failed to create new API request. '' e),
              sent = [], body_after = None, world = w\<rparr>"
  using assms by (simp add: ItemUsages_def)

lemma newAPIRequest_credential_error:
  assumes "ParseJWTClaims env tok = Inl e \<or>
           (\<exists>jwt. ParseJWTClaims env tok = Inr jwt \<and> GetEventsURL env jwt = Inl e)"
  shows "newAPIRequest env method tok path rbody = Returns (Inl e)"
  using assms by (auto simp add: newAPIRequest_def)

text \<open>
  Claim C5. When the bearer token is undecodable (\<open>ParseJWTClaims\<close> fails) or its claims
  have no events URL (\<open>GetEventsURL\<close> fails), each of the three operations returns at once
  the error of the helper, wrapped by ``failed to create new API request. '': no request
  has been handed to the transport, the world is as it was, and nothing is tried again.
\<close>

theorem credential_error_before_any_request:
  assumes "ParseJWTClaims env tok = Inl e \<or>
           (\<exists>jwt. ParseJWTClaims env tok = Inr jwt \<and> GetEventsURL env jwt = Inl e)"
  shows "Introspect env w tok =
           Returns \<lparr>returned = Inl (Wrapped ''failed to create new API request. '' e),
                    sent = [], body_after = None, world = w\<rparr> \<and>
         SignInAttempts env w tok cursor =
           Returns \<lparr>returned = Inl (Wrapped ''failed to create new API request. '' e),
                    sent = [], body_after = None, world = w\<rparr> \<and>
         ItemUsages env w tok cursor =
           Returns \<lparr>returned = Inl (Wrapped ''failed to create new API request. '' e),
                    sent = [], body_after = None, world = w\<rparr>"
  by (simp add: newAPIRequest_credential_error [OF assms] Introspect_no_request
      SignInAttempts_no_request ItemUsages_no_request)

theorem credential_error_before_any_request_witness:
  "(Introspect (demo_env (demo_server (demo_response 200 ''200 OK'' demo_batch))) (5::nat) ''garbage'' =
      Returns \<lparr>returned = Inl (Wrapped ''failed to create new API request. '' (ErrorString ''invalid token'')),
               sent = [], body_after = None, world = 5\<rparr> \<and>
    SignInAttempts (demo_env (demo_server (demo_response 200 ''200 OK'' demo_batch))) (5::nat) ''garbage'' ''c1'' =
      Returns \<lparr>returned = Inl (Wrapped ''failed to create new API request. '' (ErrorString ''invalid token'')),
               sent = [], body_after = None, world = 5\<rparr> \<and>
    ItemUsages (demo_env (demo_server (demo_response 200 ''200 OK'' demo_batch))) (5::nat) ''garbage'' ''c1'' =
      Returns \<lparr>returned = Inl (Wrapped ''failed to create new API request. '' (ErrorString ''invalid token'')),
               sent = [], body_after = None, world = 5\<rparr>) \<and>
   (Introspect (demo_env (demo_server (demo_response 200 ''200 OK'' demo_batch))) (5::nat) ''tok.nourl'' =
      Returns \<lparr>returned = Inl (Wrapped ''failed to create new API request. '' (ErrorString ''no events URL'')),
               sent = [], body_after = None, world = 5\<rparr> \<and>
    SignInAttempts (demo_env (demo_server (demo_response 200 ''200 OK'' demo_batch))) (5::nat) ''tok.nourl'' ''c1'' =
      Returns \<lparr>returned = Inl (Wrapped ''failed to create new API request. '' (ErrorString ''no events URL'')),
               sent = [], body_after = None, world = 5\<rparr> \<and>
    ItemUsages (demo_env (demo_server (demo_response 200 ''200 OK'' demo_batch))) (5::nat) ''tok.nourl'' ''c1'' =
      Returns \<lparr>returned = Inl (Wrapped ''failed to create new API request. '' (ErrorString ''no events URL'')),
               sent = [], body_after = None, world = 5\<rparr>)"
proof -
  have a: "ParseJWTClaims (demo_env (demo_server (demo_response 200 ''200 OK'' demo_batch))) ''garbage'' = Inl (ErrorString ''invalid token'')"
    by (simp add: demo_env_def demo_ParseJWTClaims_def)
  have b: "\<exists>jwt. ParseJWTClaims (demo_env (demo_server (demo_response 200 ''200 OK'' demo_batch))) ''tok.nourl'' = Inr jwt \<and>
             GetEventsURL (demo_env (demo_server (demo_response 200 ''200 OK'' demo_batch))) jwt = Inl (ErrorString ''no events URL'')"
    by (simp add: demo_env_def demo_ParseJWTClaims_def demo_GetEventsURL_def)
  show ?thesis
    using credential_error_before_any_request [OF disjI1, OF a, of 5 "''c1''"]
      credential_error_before_any_request [OF disjI2, OF b, of 5 "''c1''"]
    by simp
qed

subsection \<open>A batch that does not decode\<close>

text \<open>
  Claim C4. When the response has status 200 and decoding its body into the batch fails,
  \<open>SignInAttempts\<close> and \<open>ItemUsages\<close> return the error of the decoder, wrapped, and no
  batch: the value \<open>v\<close> that the decoder had filled so far is dropped.
\<close>

theorem failed_batch_decode_returns_no_batch:
  assumes "Do env w rq = (Inr rs, w')" and "StatusCode rs = 200"
  shows "(newAPIRequest env ''POST'' tok ''/api/v1/signinattempts'' (Some cursor) = Returns (Inr rq) \<and>
          Decode (scan env) (store_SignInAttemptResponse (time_UnmarshalJSON env)) (Body rs)
            zero_SignInAttemptResponse = (v, Some e) \<longrightarrow>
            (\<exists>out. SignInAttempts env w tok cursor = Returns out \<and>
               returned out = Inl (Wrapped ''failed to unmarshal response. '' e))) \<and>
         (newAPIRequest env ''POST'' tok ''/api/v1/itemusages'' (Some cursor) = Returns (Inr rq) \<and>
          Decode (scan env) (store_ItemUsageResponse (time_UnmarshalJSON env)) (Body rs)
            zero_ItemUsageResponse = (v', Some e') \<longrightarrow>
            (\<exists>out. ItemUsages env w tok cursor = Returns out \<and>
               returned out = Inl (Wrapped ''failed to unmarshal response. '' e')))"
  using assms
  by (simp add: SignInAttempts_response ItemUsages_response)

theorem failed_batch_decode_returns_no_batch_witness:
  "Decode demo_scan (store_SignInAttemptResponse demo_time)
     \<lparr>content = demo_bad_batch, closed = False\<rparr> zero_SignInAttemptResponse =
     (\<lparr>SignInAttemptResponse_Cursor = ''c2'', SignInAttemptResponse_HasMore = False,
       SignInAttemptResponse_Items = [zero_SignInAttempt\<lparr>SignInAttempt_UUID := ''A1''\<rparr>]\<rparr>,
      Some (UnmarshalTypeError ''bool'')) \<and>
   (\<exists>out. SignInAttempts (demo_env (\<lambda>rq. Inr (demo_response 200 ''200 OK'' demo_bad_batch))) 0
             ''tok.good'' ''c1'' = Returns out \<and>
      returned out = Inl (Wrapped ''failed to unmarshal response. '' (UnmarshalTypeError ''bool''))) \<and>
   Decode demo_scan (store_ItemUsageResponse demo_time)
     \<lparr>content = demo_bad_batch, closed = False\<rparr> zero_ItemUsageResponse =
     (\<lparr>ItemUsageResponse_Cursor = ''c2'', ItemUsageResponse_HasMore = False,
       ItemUsageResponse_Items = [zero_ItemUsage\<lparr>ItemUsage_UUID := ''A1''\<rparr>]\<rparr>,
      Some (UnmarshalTypeError ''bool'')) \<and>
   (\<exists>out. ItemUsages (demo_env (\<lambda>rq. Inr (demo_response 200 ''200 OK'' demo_bad_batch))) 0
             ''tok.good'' ''c1'' = Returns out \<and>
      returned out = Inl (Wrapped ''failed to unmarshal response. '' (UnmarshalTypeError ''bool'')))"
proof -
  have ok: "StatusCode (demo_response 200 ''200 OK'' demo_bad_batch) = 200"
    by (simp add: demo_response_def)
  have b: "Body (demo_response 200 ''200 OK'' demo_bad_batch) = \<lparr>content = demo_bad_batch, closed = False\<rparr>"
    by (simp add: demo_response_def)
  have e: "scan (demo_env server) = demo_scan" "time_UnmarshalJSON (demo_env server) = demo_time"
    for server :: "request \<Rightarrow> error + response"
    by (simp_all add: demo_env_def)
  show ?thesis
    using failed_batch_decode_returns_no_batch
        [where w = "0::nat" and rq = "demo_request ''POST'' ''/api/v1/signinattempts'' (Some ''c1'')"
           and tok = "''tok.good''" and cursor = "''c1''"
           and rs = "demo_response 200 ''200 OK'' demo_bad_batch", OF demo_Do ok]
      failed_batch_decode_returns_no_batch
        [where w = "0::nat" and rq = "demo_request ''POST'' ''/api/v1/itemusages'' (Some ''c1'')"
           and tok = "''tok.good''" and cursor = "''c1''"
           and rs = "demo_response 200 ''200 OK'' demo_bad_batch", OF demo_Do ok]
    by (simp add: demo_newAPIRequest validMethod_POST demo_paths b e
        demo_bad_batch_SignIn demo_bad_batch_ItemUsage)
qed

subsection \<open>The headers of every request\<close>

lemma newAPIRequest_headers:
  assumes "newAPIRequest env method tok path rbody = Returns (Inr rq)"
  shows "Header rq ''Authorization'' = [''Bearer '' @ tok] \<and>
         Header rq ''User-Agent'' = [''1Password Events API Beats / '' @ Version env]"
  using assms
  by (auto simp add: newAPIRequest_def NewRequestWithContext_def Header_Add_def
      DefaultUserAgent_def Let_def split: sum.splits if_splits)

lemma Introspect_sent:
  assumes "Introspect env w tok = Returns out" and "rq \<in> set (sent out)"
  shows "newAPIRequest env ''GET'' tok ''/api/auth/introspect'' None = Returns (Inr rq)"
  using assms
  by (auto simp add: Introspect_def Let_def split: go.splits sum.splits prod.splits)

lemma SignInAttempts_sent:
  assumes "SignInAttempts env w tok cursor = Returns out" and "rq \<in> set (sent out)"
  shows "newAPIRequest env ''POST'' tok ''/api/v1/signinattempts'' (Some cursor) = Returns (Inr rq)"
  using assms
  by (auto simp add: SignInAttempts_def split: go.splits sum.splits prod.splits)

lemma ItemUsages_sent:
  assumes "ItemUsages env w tok cursor = Returns out" and "rq \<in> set (sent out)"
  shows "newAPIRequest env ''POST'' tok ''/api/v1/itemusages'' (Some cursor) = Returns (Inr rq)"
  using assms
  by (auto simp add: ItemUsages_def split: go.splits sum.splits prod.splits)

lemma demo_statuses:
  "StatusCode (demo_response code st bytes) = code"
  "Status (demo_response code st bytes) = st"
  "Body (demo_response code st bytes) = \<lparr>content = bytes, closed = False\<rparr>"
  by (simp_all add: demo_response_def)

lemma demo_Do_server: "Do (demo_env (demo_server rs)) w rq = (Inr rs, Suc w)"
  by (simp add: demo_env_def demo_server_def)

text \<open>
  Claim C7. Every request that \<open>newAPIRequest\<close> builds, and so every request that one of
  the three operations hands to the transport, has the header \<open>Authorization\<close> with the one
  value ``Bearer '' followed by the caller's token, and the header \<open>User-Agent\<close> with the
  one value \<open>DefaultUserAgent\<close>: the fixed product name ``1Password Events API Beats / ''
  followed by the build version.
\<close>

theorem every_request_carries_credential_and_agent:
  "(newAPIRequest env method tok path rbody = Returns (Inr rq) \<longrightarrow>
      Header rq ''Authorization'' = [''Bearer '' @ tok] \<and>
      Header rq ''User-Agent'' = [''1Password Events API Beats / '' @ Version env]) \<and>
   (Introspect env w tok = Returns outI \<and> rqI \<in> set (sent outI) \<longrightarrow>
      Header rqI ''Authorization'' = [''Bearer '' @ tok] \<and>
      Header rqI ''User-Agent'' = [''1Password Events API Beats / '' @ Version env]) \<and>
   (SignInAttempts env w tok cursor = Returns outS \<and> rqS \<in> set (sent outS) \<longrightarrow>
      Header rqS ''Authorization'' = [''Bearer '' @ tok] \<and>
      Header rqS ''User-Agent'' = [''1Password Events API Beats / '' @ Version env]) \<and>
   (ItemUsages env w tok cursor = Returns outU \<and> rqU \<in> set (sent outU) \<longrightarrow>
      Header rqU ''Authorization'' = [''Bearer '' @ tok] \<and>
      Header rqU ''User-Agent'' = [''1Password Events API Beats / '' @ Version env])"
proof (intro conjI impI; (elim conjE)?)
  assume "newAPIRequest env method tok path rbody = Returns (Inr rq)"
  then show "Header rq ''Authorization'' = [''Bearer '' @ tok]"
    and "Header rq ''User-Agent'' = [''1Password Events API Beats / '' @ Version env]"
    by (simp_all add: newAPIRequest_headers)
next
  assume "Introspect env w tok = Returns outI" and "rqI \<in> set (sent outI)"
  then have "newAPIRequest env ''GET'' tok ''/api/auth/introspect'' None = Returns (Inr rqI)"
    by (rule Introspect_sent)
  then show "Header rqI ''Authorization'' = [''Bearer '' @ tok]"
    and "Header rqI ''User-Agent'' = [''1Password Events API Beats / '' @ Version env]"
    by (simp_all add: newAPIRequest_headers)
next
  assume "SignInAttempts env w tok cursor = Returns outS" and "rqS \<in> set (sent outS)"
  then have "newAPIRequest env ''POST'' tok ''/api/v1/signinattempts'' (Some cursor) = Returns (Inr rqS)"
    by (rule SignInAttempts_sent)
  then show "Header rqS ''Authorization'' = [''Bearer '' @ tok]"
    and "Header rqS ''User-Agent'' = [''1Password Events API Beats / '' @ Version env]"
    by (simp_all add: newAPIRequest_headers)
next
  assume "ItemUsages env w tok cursor = Returns outU" and "rqU \<in> set (sent outU)"
  then have "newAPIRequest env ''POST'' tok ''/api/v1/itemusages'' (Some cursor) = Returns (Inr rqU)"
    by (rule ItemUsages_sent)
  then show "Header rqU ''Authorization'' = [''Bearer '' @ tok]"
    and "Header rqU ''User-Agent'' = [''1Password Events API Beats / '' @ Version env]"
    by (simp_all add: newAPIRequest_headers)
qed

theorem every_request_carries_credential_and_agent_witness:
  "newAPIRequest (demo_env (demo_server (demo_response 200 ''200 OK'' demo_batch))) ''GET''
      ''tok.good'' ''/api/auth/introspect'' None
     = Returns (Inr (demo_request ''GET'' ''/api/auth/introspect'' None)) \<and>
   Header (demo_request ''GET'' ''/api/auth/introspect'' None) ''Authorization'' = [''Bearer tok.good''] \<and>
   Header (demo_request ''GET'' ''/api/auth/introspect'' None) ''User-Agent''
     = [''1Password Events API Beats / 1.2.3''] \<and>
   (\<exists>out. Introspect (demo_env (demo_server (demo_response 200 ''200 OK'' demo_batch))) 0 ''tok.good''
        = Returns out \<and>
      sent out = [demo_request ''GET'' ''/api/auth/introspect'' None]) \<and>
   (\<exists>out. SignInAttempts (demo_env (demo_server (demo_response 200 ''200 OK'' demo_batch))) 0
        ''tok.good'' ''c1'' = Returns out \<and>
      sent out = [demo_request ''POST'' ''/api/v1/signinattempts'' (Some ''c1'')]) \<and>
   Header (demo_request ''POST'' ''/api/v1/signinattempts'' (Some ''c1'')) ''Authorization''
     = [''Bearer tok.good''] \<and>
   Header (demo_request ''POST'' ''/api/v1/signinattempts'' (Some ''c1'')) ''User-Agent''
     = [''1Password Events API Beats / 1.2.3''] \<and>
   (\<exists>out. ItemUsages (demo_env (demo_server (demo_response 200 ''200 OK'' demo_batch))) 0
        ''tok.good'' ''c1'' = Returns out \<and>
      sent out = [demo_request ''POST'' ''/api/v1/itemusages'' (Some ''c1'')]) \<and>
   Header (demo_request ''POST'' ''/api/v1/itemusages'' (Some ''c1'')) ''Authorization''
     = [''Bearer tok.good''] \<and>
   Header (demo_request ''POST'' ''/api/v1/itemusages'' (Some ''c1'')) ''User-Agent''
     = [''1Password Events API Beats / 1.2.3'']"
proof -
  let ?D = "demo_env (demo_server (demo_response 200 ''200 OK'' demo_batch))"
  let ?rs = "demo_response 200 ''200 OK'' demo_batch"
  have v: "Version ?D = ''1.2.3''"
    by (simp add: demo_env_def)
  have n1: "newAPIRequest ?D ''GET'' ''tok.good'' ''/api/auth/introspect'' None
      = Returns (Inr (demo_request ''GET'' ''/api/auth/introspect'' None))"
    and n2: "newAPIRequest ?D ''POST'' ''tok.good'' ''/api/v1/signinattempts'' (Some ''c1'')
      = Returns (Inr (demo_request ''POST'' ''/api/v1/signinattempts'' (Some ''c1'')))"
    and n3: "newAPIRequest ?D ''POST'' ''tok.good'' ''/api/v1/itemusages'' (Some ''c1'')
      = Returns (Inr (demo_request ''POST'' ''/api/v1/itemusages'' (Some ''c1'')))"
    by (simp_all add: demo_newAPIRequest validMethod_GET validMethod_POST demo_paths)
  obtain o1 where o1: "Introspect ?D 0 ''tok.good'' = Returns o1"
      "sent o1 = [demo_request ''GET'' ''/api/auth/introspect'' None]"
    using Introspect_response [OF n1 demo_Do_server, of 0] by simp
  obtain o2 where o2: "SignInAttempts ?D 0 ''tok.good'' ''c1'' = Returns o2"
      "sent o2 = [demo_request ''POST'' ''/api/v1/signinattempts'' (Some ''c1'')]"
    using SignInAttempts_response [OF n2 demo_Do_server, of 0] by simp
  obtain o3 where o3: "ItemUsages ?D 0 ''tok.good'' ''c1'' = Returns o3"
      "sent o3 = [demo_request ''POST'' ''/api/v1/itemusages'' (Some ''c1'')]"
    using ItemUsages_response [OF n3 demo_Do_server, of 0] by simp
  show ?thesis
    using every_request_carries_credential_and_agent
      [of ?D "''GET''" "''tok.good''" "''/api/auth/introspect''" None
         "demo_request ''GET'' ''/api/auth/introspect'' None" 0
         o1 "demo_request ''GET'' ''/api/auth/introspect'' None" "''c1''"
         o2 "demo_request ''POST'' ''/api/v1/signinattempts'' (Some ''c1'')"
         o3 "demo_request ''POST'' ''/api/v1/itemusages'' (Some ''c1'')"]
      n1 o1 o2 o3 v
    by simp
qed

subsection \<open>The requests of the two fetch operations\<close>

lemma SignInAttempts_sends:
  assumes "newAPIRequest env ''POST'' tok ''/api/v1/signinattempts'' (Some cursor) = Returns (Inr rq)"
  shows "\<exists>out. SignInAttempts env w tok cursor = Returns out \<and> sent out = [rq]"
  using assms
  by (auto simp add: SignInAttempts_def split: go.splits sum.splits prod.splits)

lemma ItemUsages_sends:
  assumes "newAPIRequest env ''POST'' tok ''/api/v1/itemusages'' (Some cursor) = Returns (Inr rq)"
  shows "\<exists>out. ItemUsages env w tok cursor = Returns out \<and> sent out = [rq]"
  using assms
  by (auto simp add: ItemUsages_def split: go.splits sum.splits prod.splits)

text \<open>
  Claim C6, as stated for every credential, does not hold: for a token that does not
  decode, \<open>SignInAttempts\<close> returns the error before it has handed any request to the
  transport.
\<close>

theorem bad_credential_sends_no_request:
  "SignInAttempts (demo_env (demo_server (demo_response 200 ''200 OK'' demo_batch))) 0 ''garbage'' ''''
     = Returns \<lparr>returned = Inl (Wrapped ''failed to create new API request. ''
                                 (ErrorString ''invalid token'')),
                sent = [], body_after = None, world = 0\<rparr>"
  by (rule SignInAttempts_no_request)
     (simp add: newAPIRequest_def demo_env_def demo_ParseJWTClaims_def)

text \<open>
  Claim C6, amended. For every credential whose claims parse and yield an events URL from
  which net/http can build the request, and for every cursor (the empty one too),
  \<open>SignInAttempts\<close> hands exactly one request to the transport: a POST to the events URL
  followed by \<open>/api/v1/signinattempts\<close>, with the cursor unchanged as its body; and
  \<open>ItemUsages\<close> likewise, to the events URL followed by \<open>/api/v1/itemusages\<close>.
\<close>

theorem fetch_posts_the_raw_cursor:
  assumes "ParseJWTClaims env tok = Inr jwt" and "GetEventsURL env jwt = Inr url"
  shows "(url_Parse (parse_rest env) (url @ ''/api/v1/signinattempts'') = Inr u \<longrightarrow>
            (\<exists>out rq. SignInAttempts env w tok cursor = Returns out \<and> sent out = [rq] \<and>
               Method rq = ''POST'' \<and> URL rq = url @ ''/api/v1/signinattempts'' \<and>
               ReqBody rq = Some cursor)) \<and>
         (url_Parse (parse_rest env) (url @ ''/api/v1/itemusages'') = Inr u' \<longrightarrow>
            (\<exists>out rq. ItemUsages env w tok cursor = Returns out \<and> sent out = [rq] \<and>
               Method rq = ''POST'' \<and> URL rq = url @ ''/api/v1/itemusages'' \<and>
               ReqBody rq = Some cursor))"
proof (intro conjI impI)
  assume "url_Parse (parse_rest env) (url @ ''/api/v1/signinattempts'') = Inr u"
  from newAPIRequest_built [OF assms validMethod_POST this, of "Some cursor"]
    SignInAttempts_sends [of env tok cursor _ w]
  show "\<exists>out rq. SignInAttempts env w tok cursor = Returns out \<and> sent out = [rq] \<and>
      Method rq = ''POST'' \<and> URL rq = url @ ''/api/v1/signinattempts'' \<and> ReqBody rq = Some cursor"
    by fastforce
next
  assume "url_Parse (parse_rest env) (url @ ''/api/v1/itemusages'') = Inr u'"
  from newAPIRequest_built [OF assms validMethod_POST this, of "Some cursor"]
    ItemUsages_sends [of env tok cursor _ w]
  show "\<exists>out rq. ItemUsages env w tok cursor = Returns out \<and> sent out = [rq] \<and>
      Method rq = ''POST'' \<and> URL rq = url @ ''/api/v1/itemusages'' \<and> ReqBody rq = Some cursor"
    by fastforce
qed

theorem fetch_posts_the_raw_cursor_witness:
  "(\<exists>out rq. SignInAttempts (demo_env (demo_server (demo_response 200 ''200 OK'' demo_batch))) 0
        ''tok.good'' '''' = Returns out \<and> sent out = [rq] \<and>
      Method rq = ''POST'' \<and> URL rq = ''https://events.1password.com/api/v1/signinattempts'' \<and>
      ReqBody rq = Some '''') \<and>
   (\<exists>out rq. ItemUsages (demo_env (demo_server (demo_response 200 ''200 OK'' demo_batch))) 0
        ''tok.good'' '''' = Returns out \<and> sent out = [rq] \<and>
      Method rq = ''POST'' \<and> URL rq = ''https://events.1password.com/api/v1/itemusages'' \<and>
      ReqBody rq = Some '''')"
proof -
  let ?D = "demo_env (demo_server (demo_response 200 ''200 OK'' demo_batch))"
  have a: "ParseJWTClaims ?D ''tok.good'' = Inr (Some ''https://events.1password.com'')"
    and b: "GetEventsURL ?D (Some ''https://events.1password.com'') = Inr ''https://events.1password.com''"
    by (simp_all add: demo_env_def demo_ParseJWTClaims_def demo_GetEventsURL_def)
  have c: "url_Parse (parse_rest ?D) (''https://events.1password.com'' @ ''/api/v1/signinattempts'')
      = Inr ''https://events.1password.com/api/v1/signinattempts''"
    and d: "url_Parse (parse_rest ?D) (''https://events.1password.com'' @ ''/api/v1/itemusages'')
      = Inr ''https://events.1password.com/api/v1/itemusages''"
    by (simp_all add: url_Parse_def demo_env_def stringContainsCTLByte_def byte_def)
  show ?thesis
    using fetch_posts_the_raw_cursor [OF a b, of _ 0 "''''"] c d
    by simp
qed

subsection \<open>Fetching twice\<close>

lemma demo_batch_SignIn:
  "Decode demo_scan (store_SignInAttemptResponse demo_time)
     \<lparr>content = demo_batch, closed = False\<rparr> zero_SignInAttemptResponse =
   (\<lparr>SignInAttemptResponse_Cursor = ''c2'', SignInAttemptResponse_HasMore = False,
     SignInAttemptResponse_Items = [zero_SignInAttempt\<lparr>SignInAttempt_UUID := ''A1''\<rparr>]\<rparr>,
    None)"
  by (simp add: Decode_def ReadAll_def demo_scan_def store_SignInAttemptResponse_def
      fields_SignInAttemptResponse_def store_SignInAttempt_def fields_SignInAttempt_def
      zero_SignInAttemptResponse_def store_defs demo_batch_def demo_introspection_def)

lemma demo_scan_time:
  "scan (demo_env server) = demo_scan" "time_UnmarshalJSON (demo_env server) = demo_time"
  by (simp_all add: demo_env_def)

text \<open>
  Claim C9. Two calls of \<open>SignInAttempts\<close> one after the other, with the same credential
  and the same cursor, return the same: if the first call returns, and the transport
  answers the request of the first call in the world that call left behind as it answered
  it before (the server has not changed its response), then the second call returns too,
  with the same batch or the same error, after sending the same request. The operation
  reads and writes no state of the client; all that passes from one call to the next is
  the world behind \<open>Do\<close>.
\<close>

theorem repeated_fetch_returns_the_same:
  assumes "SignInAttempts env w tok cursor = Returns outA"
    and "\<forall>rq \<in> set (sent outA). fst (Do env (world outA) rq) = fst (Do env w rq)"
  shows "\<exists>outB. SignInAttempts env (world outA) tok cursor = Returns outB \<and>
           returned outB = returned outA \<and> sent outB = sent outA"
proof (cases "newAPIRequest env ''POST'' tok ''/api/v1/signinattempts'' (Some cursor)")
  case (Panics m)
  then show ?thesis
    using assms(1) by (simp add: SignInAttempts_def)
next
  case (Returns r)
  show ?thesis
  proof (cases r)
    case (Inl e)
    then show ?thesis
      using Returns assms(1) by (auto simp add: SignInAttempts_no_request)
  next
    case (Inr rq)
    let ?R = "\<lambda>a. case a of
        Inl e \<Rightarrow> Inl e
      | Inr rs \<Rightarrow>
          if StatusCode rs \<noteq> 200
          then Inl (ErrorString (''unexpected status code: '' @ Status rs))
          else (case Decode (scan env) (store_SignInAttemptResponse (time_UnmarshalJSON env))
                     (Body rs) zero_SignInAttemptResponse of
                  (v, Some e) \<Rightarrow> Inl (Wrapped ''failed to unmarshal response. '' e)
                | (v, None) \<Rightarrow> Inr v)"
    have gen: "\<exists>out. SignInAttempts env x tok cursor = Returns out \<and>
        returned out = ?R a \<and> sent out = [rq] \<and> world out = x'"
      if "Do env x rq = (a, x')" for x a x'
      using Returns Inr that
      by (cases a) (simp_all add: SignInAttempts_def)
    obtain a w' where d: "Do env w rq = (a, w')"
      by (cases "Do env w rq")
    from gen [OF d] assms(1)
    have A: "returned outA = ?R a" "sent outA = [rq]" "world outA = w'"
      by auto
    obtain w'' where d': "Do env w' rq = (a, w'')"
      using assms(2) A d by (cases "Do env w' rq") auto
    from gen [OF d'] A show ?thesis
      by auto
  qed
qed

theorem repeated_fetch_returns_the_same_witness:
  "\<exists>outA outB.
     SignInAttempts (demo_env (demo_server (demo_response 200 ''200 OK'' demo_batch))) 0 ''tok.good'' ''c1''
       = Returns outA \<and>
     world outA = 1 \<and>
     returned outA =
       Inr \<lparr>SignInAttemptResponse_Cursor = ''c2'', SignInAttemptResponse_HasMore = False,
            SignInAttemptResponse_Items = [zero_SignInAttempt\<lparr>SignInAttempt_UUID := ''A1''\<rparr>]\<rparr> \<and>
     SignInAttempts (demo_env (demo_server (demo_response 200 ''200 OK'' demo_batch))) 1 ''tok.good'' ''c1''
       = Returns outB \<and>
     returned outB = returned outA"
proof -
  let ?D = "demo_env (demo_server (demo_response 200 ''200 OK'' demo_batch))"
  have n: "newAPIRequest ?D ''POST'' ''tok.good'' ''/api/v1/signinattempts'' (Some ''c1'')
      = Returns (Inr (demo_request ''POST'' ''/api/v1/signinattempts'' (Some ''c1'')))"
    by (simp add: demo_newAPIRequest validMethod_POST demo_paths)
  obtain outA where A: "SignInAttempts ?D 0 ''tok.good'' ''c1'' = Returns outA"
    "world outA = 1"
    "returned outA =
       Inr \<lparr>SignInAttemptResponse_Cursor = ''c2'', SignInAttemptResponse_HasMore = False,
            SignInAttemptResponse_Items = [zero_SignInAttempt\<lparr>SignInAttempt_UUID := ''A1''\<rparr>]\<rparr>"
    using SignInAttempts_response [OF n demo_Do_server, of 0]
    by (simp add: demo_statuses demo_scan_time demo_batch_SignIn)
  have same: "\<forall>rq \<in> set (sent outA). fst (Do ?D (world outA) rq) = fst (Do ?D 0 rq)"
    by (simp add: demo_Do_server)
  from repeated_fetch_returns_the_same [OF A(1) same] A
  show ?thesis
    by auto
qed

subsection \<open>Introspect reads the body after closing it\<close>

lemma demo_introspection_decodes:
  "Decode demo_scan (store_IntrospectResponse demo_time)
     \<lparr>content = demo_introspection, closed = False\<rparr> zero_IntrospectResponse =
   (\<lparr>IntrospectResponse_UUID = ''T1'', IntrospectResponse_IssuedAt = Time 1614556800 0,
     IntrospectResponse_Features = [''signinattempts'']\<rparr>, None)"
  by (simp add: Decode_def ReadAll_def demo_scan_def store_IntrospectResponse_def
      fields_IntrospectResponse_def zero_IntrospectResponse_def store_defs demo_time_def
      demo_introspection_def)

lemma Decode_closed:
  assumes "closed b"
  shows "Decode sc st b v = (v, Some (ErrorString ''http: read on closed response body''))"
  using assms by (simp add: Decode_def ReadAll_def)

lemma Introspect_never_returns_a_result:
  assumes "Introspect env w tok = Returns out"
  shows "\<exists>e. returned out = Inl e"
  using assms
  by (auto simp add: Introspect_def Let_def Decode_closed Close_def split: go.splits sum.splits prod.splits)

text \<open>
  Claim C1 asks that \<open>Introspect\<close> return the decoded result when the response has status
  200 and a body that decodes. The code closes the body before it decodes it
  (\<open>_ = response.Body.Close()\<close>, without the \<open>defer\<close> of the other two operations), so the
  decoder reads a closed body: on a response whose body, read open, decodes to the token
  UUID, the issuance time and the features, \<open>Introspect\<close> returns the error of the read.
\<close>

theorem Introspect_fails_on_a_valid_response:
  "Decode demo_scan (store_IntrospectResponse demo_time)
     (Body (demo_response 200 ''200 OK'' demo_introspection)) zero_IntrospectResponse =
     (\<lparr>IntrospectResponse_UUID = ''T1'', IntrospectResponse_IssuedAt = Time 1614556800 0,
       IntrospectResponse_Features = [''signinattempts'']\<rparr>, None) \<and>
   Introspect (demo_env (demo_server (demo_response 200 ''200 OK'' demo_introspection))) 0 ''tok.good'' =
     Returns \<lparr>returned = Inl (Wrapped ''failed to unmarshal response. ''
                                 (ErrorString ''http: read on closed response body'')),
              sent = [demo_request ''GET'' ''/api/auth/introspect'' None],
              body_after = Some \<lparr>content = demo_introspection, closed = True\<rparr>,
              world = 1\<rparr>"
proof -
  let ?D = "demo_env (demo_server (demo_response 200 ''200 OK'' demo_introspection))"
  have n: "newAPIRequest ?D ''GET'' ''tok.good'' ''/api/auth/introspect'' None
      = Returns (Inr (demo_request ''GET'' ''/api/auth/introspect'' None))"
    by (simp add: demo_newAPIRequest validMethod_GET demo_paths)
  show ?thesis
    using Introspect_response [OF n demo_Do_server, of 0]
    by (simp add: demo_statuses demo_introspection_decodes Decode_closed Close_def)
qed

subsection \<open>The dropped error of the request constructor\<close>

text \<open>
  Claim C10 asks that \<open>newAPIRequest\<close> return a request, with no error and no panic, for
  every token whose claims parse and yield an events URL. The error of
  \<open>http.NewRequestWithContext\<close> is dropped and its nil request is dereferenced: for a token
  whose events URL holds a control byte, which \<open>url.Parse\<close> rejects, \<open>newAPIRequest\<close>
  panics, and so does the operation that called it.
\<close>

theorem newAPIRequest_panics_on_unparsable_URL:
  "ParseJWTClaims (demo_env (demo_server (demo_response 200 ''200 OK'' demo_introspection))) ''tok.badurl''
     = Inr (Some (''https://events.1password.com'' @ [CHR 0x7F])) \<and>
   GetEventsURL (demo_env (demo_server (demo_response 200 ''200 OK'' demo_introspection)))
       (Some (''https://events.1password.com'' @ [CHR 0x7F]))
     = Inr (''https://events.1password.com'' @ [CHR 0x7F]) \<and>
   newAPIRequest (demo_env (demo_server (demo_response 200 ''200 OK'' demo_introspection))) ''GET''
       ''tok.badurl'' ''/api/auth/introspect'' None
     = Panics ''runtime error: invalid memory address or nil pointer dereference'' \<and>
   Introspect (demo_env (demo_server (demo_response 200 ''200 OK'' demo_introspection))) 0 ''tok.badurl''
     = Panics ''runtime error: invalid memory address or nil pointer dereference''"
  by (simp add: Introspect_def newAPIRequest_def NewRequestWithContext_def url_Parse_def
      stringContainsCTLByte_def byte_def demo_env_def demo_ParseJWTClaims_def
      demo_GetEventsURL_def validMethod_GET)

subsection \<open>The optional details of a sign-in attempt\<close>

lemma value_of_at_field:
  "value_of (at_field get upd st j v) = upd (value_of (st j (get v))) v"
  by (cases "st j (get v)") (simp_all add: at_field_def)

lemma error_of_at_field:
  "error_of (at_field get upd st j v) = error_of (st j (get v))"
  by (cases "st j (get v)") (simp_all add: at_field_def)

lemma object_preserves:
  assumes "\<And>k j st v. (k, j) \<in> set members \<Longrightarrow> findField flds k = Some st \<Longrightarrow> P v
             \<Longrightarrow> P (value_of (st j v))"
    and "P v"
  shows "P (value_of (object flds members v))"
  using assms
proof (induction members arbitrary: v)
  case Nil
  then show ?case by simp
next
  case (Cons m members)
  obtain k j where m: "m = (k, j)" by (cases m)
  have rest: "P (value_of (st j' x))"
    if "(k', j') \<in> set members" "findField flds k' = Some st" "P x" for k' j' st x
    using that Cons.prems(1) [of k' j' st x] by simp
  have IH: "P (value_of (object flds members x))" if "P x" for x
    using Cons.IH [of x] rest that by blast
  show ?case
  proof (cases "findField flds k")
    case None
    then show ?thesis
      using IH [OF Cons.prems(2)] m by simp
  next
    case (Some st)
    have step: "P (value_of (st j v))"
      using Cons.prems(1) [of k j st v] Cons.prems(2) m Some by simp
    show ?thesis
    proof (cases "st j v")
      case (Stopped v' e)
      then show ?thesis
        using step m Some by simp
    next
      case (Stored v' s)
      then have "P v'"
        using step by simp
      then have "P (value_of (object flds members v'))"
        by (rule IH)
      then show ?thesis
        using m Some Stored by (cases "object flds members v'") simp_all
    qed
  qed
qed

lemma object_error_origin:
  assumes "error_of (object flds members v) = Some e"
  shows "\<exists>(k, j) \<in> set members. \<exists>st v'. findField flds k = Some st \<and> error_of (st j v') = Some e"
  using assms
proof (induction members arbitrary: v)
  case Nil
  then show ?case by simp
next
  case (Cons m members)
  obtain k j where m: "m = (k, j)" by (cases m)
  show ?case
  proof (cases "findField flds k")
    case None
    then show ?thesis
      using Cons m by fastforce
  next
    case (Some st)
    show ?thesis
    proof (cases "st j v")
      case (Stopped v' e')
      then have "error_of (st j v) = Some e"
        using Cons.prems m Some by simp
      then show ?thesis
        using m Some by auto
    next
      case (Stored v' s)
      show ?thesis
      proof (cases "error_of (st j v) = Some e")
        case True
        then show ?thesis
          using m Some by auto
      next
        case False
        then have "error_of (object flds members v') = Some e"
          using Cons.prems m Some Stored
          by (cases "object flds members v'") (auto simp add: saveError_def split: option.splits)
        from Cons.IH [OF this] show ?thesis
          by auto
      qed
    qed
  qed
qed


lemma store_SignInAttempt_object:
  "store_SignInAttempt um (JObject members) v = object (fields_SignInAttempt um) members v"
  by (simp add: store_SignInAttempt_def store_struct_def)

lemma details_member_step:
  assumes "findField (fields_SignInAttempt um) k = Some st"
    and "keyMatches ''details'' k \<longrightarrow> j = JNull"
    and "SignInAttempt_Details v = None"
  shows "SignInAttempt_Details (value_of (st j v)) = None"
  using assms
  by (auto simp add: fields_SignInAttempt_def value_of_at_field store_ptr_def keyMatches_def
      toUpper_def isLower_def byte_def split: if_splits)

lemma details_null_no_error:
  assumes "findField (fields_SignInAttempt um) k = Some st" and "keyMatches ''details'' k"
  shows "error_of (st JNull v) = None"
  using assms
  by (auto simp add: fields_SignInAttempt_def error_of_at_field store_ptr_def keyMatches_def
      toUpper_def isLower_def byte_def split: if_splits)

lemma no_details_stays_absent:
  assumes "\<forall>(k, j) \<in> set members. keyMatches ''details'' k \<longrightarrow> j = JNull"
    and "SignInAttempt_Details v = None"
  shows "SignInAttempt_Details (value_of (object (fields_SignInAttempt um) members v)) = None"
proof (rule object_preserves [where P = "\<lambda>x. SignInAttempt_Details x = None"])
  fix k j st and x :: SignInAttempt
  assume "(k, j) \<in> set members" and "findField (fields_SignInAttempt um) k = Some st"
    and "SignInAttempt_Details x = None"
  then show "SignInAttempt_Details (value_of (st j x)) = None"
    using assms(1) by (intro details_member_step) auto
next
  show "SignInAttempt_Details v = None"
    by (rule assms(2))
qed

lemma no_details_error_from_elsewhere:
  assumes "\<forall>(k, j) \<in> set members. keyMatches ''details'' k \<longrightarrow> j = JNull"
    and "error_of (object (fields_SignInAttempt um) members v) = Some e"
  shows "\<exists>(k, j) \<in> set members. \<not> keyMatches ''details'' k \<and>
           (\<exists>st v'. findField (fields_SignInAttempt um) k = Some st \<and> error_of (st j v') = Some e)"
proof -
  from object_error_origin [OF assms(2)]
  obtain k j st v' where o: "(k, j) \<in> set members"
      "findField (fields_SignInAttempt um) k = Some st" "error_of (st j v') = Some e"
    by auto
  have "\<not> keyMatches ''details'' k"
  proof
    assume d: "keyMatches ''details'' k"
    then have "j = JNull"
      using assms(1) o(1) by auto
    then show False
      using details_null_no_error [OF o(2) d, of v'] o(3) by simp
  qed
  then show ?thesis
    using o by auto
qed


lemma encoded_members:
  assumes "encode_SignInAttempt tm co a = Inr enc" and "SignInAttempt_Details a = None"
  shows "\<exists>members. enc = JObject members \<and>
           (\<forall>(k, j) \<in> set members. keyMatches ''details'' k \<longrightarrow> j = JNull)"
  using assms
  by (auto simp add: encode_SignInAttempt_def keyMatches_def toUpper_def isLower_def byte_def
      split: sum.splits)

lemma encoded_decodes_without_error:
  assumes "encode_SignInAttempt tm co a = Inr enc" and "SignInAttempt_Details a = None"
    and "tm (SignInAttempt_Timestamp a) = Inr t" and "um t zero_Time = Inr t'"
  shows "error_of (store_SignInAttempt um enc zero_SignInAttempt) = None"
proof -
  have enc: "enc = JObject
            [(''uuid'', JString (co (SignInAttempt_UUID a))),
             (''session_uuid'', JString (co (SignInAttempt_SessionUUID a))),
             (''timestamp'', t),
             (''country'', JString (co (SignInAttempt_Country a))),
             (''category'', JString (co (SignInAttempt_Category a))),
             (''type'', JString (co (SignInAttempt_Type a))),
             (''details'', JNull),
             (''target_user'', encode_SignInAttemptTargetUser co (SignInAttempt_SignInAttemptTargetUser a)),
             (''client'', encode_SignInAttemptClient co (SignInAttempt_SignInAttemptClient a))]"
    using assms(1,2,3) by (simp add: encode_SignInAttempt_def)
  show ?thesis
    using assms(4)
    by (simp add: enc store_SignInAttempt_def fields_SignInAttempt_def
        store_SignInAttemptTargetUser_def fields_SignInAttemptTargetUser_def
        store_SignInAttemptClient_def fields_SignInAttemptClient_def
        encode_SignInAttemptTargetUser_def encode_SignInAttemptClient_def
        zero_SignInAttempt_def store_defs)
qed

text \<open>
  Claim C8. Let the JSON object of a sign-in attempt lack the details: it has no member
  whose key the decoder takes for the field \<open>details\<close>, or only with the value \<open>null\<close>.
  Decoding it leaves the field \<open>Details\<close> nil, not a pointer to a zero-valued struct, and
  the lack is no error: if the decoder reports an error at all, it is the error of storing
  a member that is not the details. And a record whose \<open>Details\<close> is nil, once encoded,
  decodes to a record whose \<open>Details\<close> is nil again; without error when \<open>time.Time\<close> reads
  back the timestamp it wrote.
\<close>

theorem absent_details_decode_to_nil:
  "((\<forall>(k, j) \<in> set members. keyMatches ''details'' k \<longrightarrow> j = JNull) \<longrightarrow>
      SignInAttempt_Details
        (value_of (store_SignInAttempt um (JObject members) zero_SignInAttempt)) = None \<and>
      (\<forall>e. error_of (store_SignInAttempt um (JObject members) zero_SignInAttempt) = Some e \<longrightarrow>
         (\<exists>(k, j) \<in> set members. \<not> keyMatches ''details'' k \<and>
            (\<exists>st v'. findField (fields_SignInAttempt um) k = Some st \<and>
               error_of (st j v') = Some e)))) \<and>
   (SignInAttempt_Details a = None \<and> encode_SignInAttempt tm co a = Inr enc \<longrightarrow>
      SignInAttempt_Details (value_of (store_SignInAttempt um enc zero_SignInAttempt)) = None \<and>
      (\<forall>t t'. tm (SignInAttempt_Timestamp a) = Inr t \<and> um t zero_Time = Inr t' \<longrightarrow>
         error_of (store_SignInAttempt um enc zero_SignInAttempt) = None))"
proof (intro conjI impI allI)
  assume h: "\<forall>(k, j) \<in> set members. keyMatches ''details'' k \<longrightarrow> j = JNull"
  have z: "SignInAttempt_Details zero_SignInAttempt = None"
    by (simp add: zero_SignInAttempt_def)
  show "SignInAttempt_Details
      (value_of (store_SignInAttempt um (JObject members) zero_SignInAttempt)) = None"
    using no_details_stays_absent [OF h z] by (simp add: store_SignInAttempt_object)
  fix e
  assume "error_of (store_SignInAttempt um (JObject members) zero_SignInAttempt) = Some e"
  then show "\<exists>(k, j) \<in> set members. \<not> keyMatches ''details'' k \<and>
      (\<exists>st v'. findField (fields_SignInAttempt um) k = Some st \<and> error_of (st j v') = Some e)"
    using no_details_error_from_elsewhere [OF h] by (simp add: store_SignInAttempt_object)
next
  assume r: "SignInAttempt_Details a = None \<and> encode_SignInAttempt tm co a = Inr enc"
  have z: "SignInAttempt_Details zero_SignInAttempt = None"
    by (simp add: zero_SignInAttempt_def)
  from r encoded_members [of tm co a enc]
  obtain members where m: "enc = JObject members"
      "\<forall>(k, j) \<in> set members. keyMatches ''details'' k \<longrightarrow> j = JNull"
    by auto
  show "SignInAttempt_Details (value_of (store_SignInAttempt um enc zero_SignInAttempt)) = None"
    using no_details_stays_absent [OF m(2) z] by (simp add: m(1) store_SignInAttempt_object)
  fix t t'
  assume "tm (SignInAttempt_Timestamp a) = Inr t \<and> um t zero_Time = Inr t'"
  then show "error_of (store_SignInAttempt um enc zero_SignInAttempt) = None"
    using r encoded_decodes_without_error [of tm co a enc t um t'] by simp
qed

theorem absent_details_decode_to_nil_witness:
  "SignInAttempt_Details
     (value_of (store_SignInAttempt demo_time
        (JObject [(''uuid'', JString ''A1''), (''type'', JString ''mfa_ok''), (''extra'', JNumber ''1'')])
        zero_SignInAttempt)) = None \<and>
   store_SignInAttempt demo_time
     (JObject [(''uuid'', JString ''A1''), (''type'', JString ''mfa_ok''), (''extra'', JNumber ''1'')])
     zero_SignInAttempt
     = Stored (zero_SignInAttempt\<lparr>SignInAttempt_UUID := ''A1'', SignInAttempt_Type := ''mfa_ok''\<rparr>) None \<and>
   SignInAttempt_Details
     (zero_SignInAttempt\<lparr>SignInAttempt_UUID := ''A1'', SignInAttempt_Timestamp := Time 1614556800 0\<rparr>)
     = None \<and>
   (\<exists>enc. encode_SignInAttempt demo_time_Marshal (\<lambda>s. s)
        (zero_SignInAttempt\<lparr>SignInAttempt_UUID := ''A1'', SignInAttempt_Timestamp := Time 1614556800 0\<rparr>)
        = Inr enc \<and>
      SignInAttempt_Details (value_of (store_SignInAttempt demo_time enc zero_SignInAttempt)) = None \<and>
      error_of (store_SignInAttempt demo_time enc zero_SignInAttempt) = None)"
proof -
  let ?M = "[(''uuid'', JString ''A1''), (''type'', JString ''mfa_ok''), (''extra'', JNumber ''1'')]"
  let ?a = "zero_SignInAttempt\<lparr>SignInAttempt_UUID := ''A1'', SignInAttempt_Timestamp := Time 1614556800 0\<rparr>"
  have h: "\<forall>(k, j) \<in> set ?M. keyMatches ''details'' k \<longrightarrow> j = JNull"
    by (simp add: keyMatches_def toUpper_def isLower_def byte_def)
  have v: "store_SignInAttempt demo_time (JObject ?M) zero_SignInAttempt
      = Stored (zero_SignInAttempt\<lparr>SignInAttempt_UUID := ''A1'', SignInAttempt_Type := ''mfa_ok''\<rparr>) None"
    by (simp add: store_SignInAttempt_def fields_SignInAttempt_def store_defs)
  have d: "SignInAttempt_Details ?a = None"
    by (simp add: zero_SignInAttempt_def)
  have t: "demo_time_Marshal (SignInAttempt_Timestamp ?a) = Inr (JString ''2021-03-01T00:00:00Z'')"
    "demo_time (JString ''2021-03-01T00:00:00Z'') zero_Time = Inr (Time 1614556800 0)"
    by (simp_all add: demo_time_Marshal_def demo_time_def)
  obtain enc where e: "encode_SignInAttempt demo_time_Marshal (\<lambda>s. s) ?a = Inr enc"
    using t(1) by (simp add: encode_SignInAttempt_def)
  from absent_details_decode_to_nil [of ?M demo_time ?a demo_time_Marshal "\<lambda>s. s" enc] h d e t
  have "SignInAttempt_Details (value_of (store_SignInAttempt demo_time (JObject ?M) zero_SignInAttempt)) = None"
    and "SignInAttempt_Details (value_of (store_SignInAttempt demo_time enc zero_SignInAttempt)) = None"
    and "error_of (store_SignInAttempt demo_time enc zero_SignInAttempt) = None"
    by blast+
  then show ?thesis
    using v d e by blast
qed

end
